theory Spec2Isabelle
  imports
    Complex_Main
    "HOL-Library.Char_ord"
    "HOL-Library.List_Lexorder"
    "HOL-Library.Product_Lexorder"
    "HOL-Library.Option_ord"
    "HOL-Library.Multiset"
begin

section \<open>Data model\<close>

text \<open>
  The pipeline of \<^verbatim>\<open>dags/weather_utils.py\<close> (and of its stand-alone siblings
  \<^verbatim>\<open>data_extraction.py\<close>, \<^verbatim>\<open>data_transformation.py\<close>, \<^verbatim>\<open>data_analysis.py\<close>) works on pandas
  data frames. A frame is modelled row-wise: the list of its column names and, for every
  row, the list of its cells in column order. A cell is a missing value (\<open>NaN\<close>, \<open>None\<close>),
  a number or a string. A number is a real. The mean of a monthly group is computed in
  IEEE double arithmetic, with the rounding of every operation (section Monthly
  aggregation); comparisons, minima and maxima involve no rounding, and the remaining
  arithmetic (the statistics of the audit, the year-over-year difference) is exact.

  Every exception the code can raise is a value of \<open>error\<close>; a function that can raise
  returns \<open>error + 'a\<close>, with \<open>Inl\<close> for the exception.
\<close>

datatype error =
    ValueError string
  | FileNotFoundError string
  | KeyError string
  | IndexError string
  | TypeError string
  | DatabaseError string

datatype cell = Null | Num real | Str string

record frame =
  columns :: "string list"
  rows :: "cell list list"

text \<open>The two UTF-8 bytes of the degree sign, and the column names built from it.\<close>

definition degree :: string where
  "degree = [CHR 0xC2, CHR 0xB0]"

definition Temp_C :: string where
  "Temp_C = ''Temp ('' @ degree @ ''C)''"

definition Mean_Temp_C :: string where
  "Mean_Temp_C = ''Mean Temp ('' @ degree @ ''C)''"

text \<open>
  In \<^verbatim>\<open>data_transformation.py\<close> the same two literals hold the three bytes
  \<open>EC A7 B8\<close> (the code point U+C9F8) where the degree sign should be.
\<close>

definition degree_dt :: string where
  "degree_dt = [CHR 0xEC, CHR 0xA7, CHR 0xB8]"

definition Temp_C_dt :: string where
  "Temp_C_dt = ''Temp ('' @ degree_dt @ ''C)''"

definition Mean_Temp_C_dt :: string where
  "Mean_Temp_C_dt = ''Mean Temp ('' @ degree_dt @ ''C)''"

subsection \<open>Frame access\<close>

fun col_index :: "string \<Rightarrow> string list \<Rightarrow> nat option" where
  "col_index c [] = None"
| "col_index c (x # xs) =
     (if x = c then Some 0 else map_option Suc (col_index c xs))"

definition cell_at :: "cell list \<Rightarrow> nat \<Rightarrow> cell" where
  "cell_at r i = (if i < length r then r ! i else Null)"

text \<open>\<^verbatim>\<open>df[c]\<close> for a column \<open>c\<close> of the frame: the cells of that column, one per row.\<close>

definition column :: "frame \<Rightarrow> string \<Rightarrow> cell list" where
  "column df c =
     (case col_index c (columns df) of
        None \<Rightarrow> []
      | Some i \<Rightarrow> map (\<lambda>r. cell_at r i) (rows df))"

text \<open>
  \<^verbatim>\<open>df[c] = v\<close> for a scalar \<open>v\<close>: an existing column is overwritten in place, a new
  one is appended on the right.
\<close>

definition set_column :: "frame \<Rightarrow> string \<Rightarrow> cell \<Rightarrow> frame" where
  "set_column df c v =
     (case col_index c (columns df) of
        Some i \<Rightarrow> df\<lparr>rows := map (\<lambda>r. r[i := v]) (rows df)\<rparr>
      | None \<Rightarrow> \<lparr>columns = columns df @ [c], rows = map (\<lambda>r. r @ [v]) (rows df)\<rparr>)"

text \<open>
  \<^verbatim>\<open>df[cols]\<close> for a list of column names, with a null where the frame lacks the
  column (the callers check the names first, or want the null).
\<close>

definition select_columns :: "frame \<Rightarrow> string list \<Rightarrow> frame" where
  "select_columns df cols =
     \<lparr>columns = cols,
      rows = map (\<lambda>r. map (\<lambda>c. case col_index c (columns df) of
                                   None \<Rightarrow> Null | Some i \<Rightarrow> cell_at r i) cols) (rows df)\<rparr>"

subsection \<open>Timestamps and calendar days\<close>

text \<open>
  A timestamp is kept as (year, month, day); the time of day is never read by the code.
  \<^verbatim>\<open>pd.to_datetime\<close> is a parameter \<open>to_datetime\<close> of the functions that call it: for a
  non-null cell it gives the timestamp, or \<open>None\<close> where pandas raises. A null cell
  becomes \<open>NaT\<close>, here \<open>None\<close> in the resulting series.
\<close>

type_synonym timestamp = "int \<times> int \<times> int"

definition to_datetime_series ::
  "(cell \<Rightarrow> timestamp option) \<Rightarrow> cell list \<Rightarrow> error + timestamp option list" where
  "to_datetime_series to_datetime cs =
     (if \<exists>c \<in> set cs. c \<noteq> Null \<and> to_datetime c = None
      then Inl (ValueError ''Unknown datetime string format'')
      else Inr (map (\<lambda>c. if c = Null then None else to_datetime c) cs))"

text \<open>
  A calendar day (\<^verbatim>\<open>datetime.date\<close>) is modelled by its proleptic Gregorian ordinal,
  computed as \<^verbatim>\<open>date.toordinal\<close> does; consecutive days have consecutive ordinals.
\<close>

definition is_leap :: "int \<Rightarrow> bool" where
  "is_leap y = (y mod 4 = 0 \<and> (y mod 100 \<noteq> 0 \<or> y mod 400 = 0))"

definition days_before_year :: "int \<Rightarrow> int" where
  "days_before_year y = (y - 1) * 365 + (y - 1) div 4 - (y - 1) div 100 + (y - 1) div 400"

definition days_in_month :: "int \<Rightarrow> int \<Rightarrow> int" where
  "days_in_month y m =
     (if m = 2 then (if is_leap y then 29 else 28)
      else if m = 4 \<or> m = 6 \<or> m = 9 \<or> m = 11 then 30 else 31)"

definition days_before_month :: "int \<Rightarrow> int \<Rightarrow> int" where
  "days_before_month y m = sum_list (map (days_in_month y) [1 ..< nat m])"

definition toordinal :: "timestamp \<Rightarrow> int" where
  "toordinal t =
     (case t of (y, m, d) \<Rightarrow> days_before_year y + days_before_month y m + d)"

text \<open>
  An ISO reader, \<open>YYYY-MM-DD\<close> followed by anything, used for the concrete batches below
  in the place of \<^verbatim>\<open>pd.to_datetime\<close>.
\<close>

definition digit :: "char \<Rightarrow> int option" where
  "digit c =
     (if CHR ''0'' \<le> c \<and> c \<le> CHR ''9'' then Some (int (of_char c) - 48) else None)"

fun number :: "int \<Rightarrow> string \<Rightarrow> int option" where
  "number acc [] = Some acc"
| "number acc (c # cs) =
     (case digit c of None \<Rightarrow> None | Some d \<Rightarrow> number (10 * acc + d) cs)"

definition iso_date :: "cell \<Rightarrow> timestamp option" where
  "iso_date c =
     (case c of
        Str s \<Rightarrow>
          if 10 \<le> length s \<and> s ! 4 = CHR ''-'' \<and> s ! 7 = CHR ''-'' then
            (case (number 0 (take 4 s), number 0 (take 2 (drop 5 s)),
                   number 0 (take 2 (drop 8 s))) of
               (Some y, Some m, Some d) \<Rightarrow> Some (y, m, d)
             | _ \<Rightarrow> None)
          else None
      | _ \<Rightarrow> None)"

subsection \<open>Series statistics\<close>

text \<open>
  \<^verbatim>\<open>Series.mean\<close> and \<^verbatim>\<open>Series.std\<close> over the non-null values: \<open>None\<close> stands for the
  \<open>NaN\<close> pandas returns for an empty series, and for the sample standard deviation
  (\<open>ddof = 1\<close>) of fewer than two values. A string in the series makes pandas raise.
  The two statistics of the audit are taken over the reals; the audit only compares
  readings with the band they span, and in the batches examined below no reading is
  within rounding distance of an end of the band.
\<close>

fun numeric :: "cell list \<Rightarrow> error + real list" where
  "numeric [] = Inr []"
| "numeric (Null # cs) = numeric cs"
| "numeric (Num x # cs) = (case numeric cs of Inl e \<Rightarrow> Inl e | Inr xs \<Rightarrow> Inr (x # xs))"
| "numeric (Str s # cs) = Inl (TypeError ''could not convert string to numeric'')"

definition mean :: "real list \<Rightarrow> real option" where
  "mean xs = (if xs = [] then None else Some (sum_list xs / real (length xs)))"

definition std :: "real list \<Rightarrow> real option" where
  "std xs =
     (if length xs < 2 then None
      else let m = sum_list xs / real (length xs)
           in Some (sqrt (sum_list (map (\<lambda>x. (x - m)\<^sup>2) xs) / real (length xs - 1))))"

section \<open>Quality audit\<close>

text \<open>
  \<^verbatim>\<open>check_data_quality\<close> of \<^verbatim>\<open>dags/weather_utils.py\<close>. The report is the dictionary the
  function returns. \<open>null_counts\<close> lists, in column order, the columns with at least one
  null cell. \<open>missing_dates\<close> holds calendar days; the code turns each into its ISO
  string and lists them in the iteration order of a Python set, which is not specified:
  the model lists the days in ascending order. The assignment \<^verbatim>\<open>df['Date'] = ...\<close>, which
  adds a column to the caller's frame after the nulls were counted, is not part of the
  returned report and is left out.
\<close>

record quality_report =
  qr_station_id :: int
  qr_year :: int
  record_count :: nat
  null_counts :: "(string \<times> nat) list"
  missing_dates :: "int list"
  temperature_outliers :: nat

text \<open>\<^verbatim>\<open>null_counts = df.isnull().sum(); null_counts[null_counts > 0].to_dict()\<close>\<close>

definition isnull_sum :: "frame \<Rightarrow> (string \<times> nat) list" where
  "isnull_sum df =
     map (\<lambda>c. (c, length (filter (\<lambda>x. x = Null) (column df c)))) (columns df)"

definition positive_null_counts :: "frame \<Rightarrow> (string \<times> nat) list" where
  "positive_null_counts df = filter (\<lambda>(c, n). 0 < n) (isnull_sum df)"

text \<open>
  The missing days, given the resolved timestamp column. With no such column the list
  stays empty. \<^verbatim>\<open>pd.date_range\<close> raises on an empty frame (both ends are \<open>NaN\<close>), and
  the minimum of an object column that holds \<open>NaT\<close> beside dates raises a type error.
\<close>

definition find_missing_dates ::
  "(cell \<Rightarrow> timestamp option) \<Rightarrow> frame \<Rightarrow> string option \<Rightarrow> error + int list" where
  "find_missing_dates to_datetime df datetime_column =
     (case datetime_column of
        None \<Rightarrow> Inr []
      | Some c \<Rightarrow>
          (case to_datetime_series to_datetime (column df c) of
             Inl e \<Rightarrow> Inl e
           | Inr ts \<Rightarrow>
               (case those (map (map_option toordinal) ts) of
                  None \<Rightarrow> Inl (TypeError ''comparison of datetime.date with float'')
                | Some Date \<Rightarrow>
                    if Date = [] then Inl (ValueError ''Neither start nor end can be NaT'')
                    else
                      let date_range = [Min (set Date) .. Max (set Date)]
                      in Inr (filter (\<lambda>d. d \<notin> set Date) date_range))))"

text \<open>
  The outlier count, given the resolved temperature column: the readings strictly outside
  mean \<open>\<plusminus>\<close> 3 sample standard deviations of the non-null readings
  (\<open>outside_3_std\<close>, the same five lines in both versions of the audit). A comparison
  with \<open>NaN\<close> bounds is false, so a single reading gives no outlier.
\<close>

definition outside_3_std :: "real list \<Rightarrow> nat" where
  "outside_3_std temp_data =
     (case (mean temp_data, std temp_data) of
        (Some temp_mean, Some temp_std) \<Rightarrow>
          let lower_bound = temp_mean - 3 * temp_std;
              upper_bound = temp_mean + 3 * temp_std
          in length (filter (\<lambda>x. x < lower_bound \<or> x > upper_bound) temp_data)
      | _ \<Rightarrow> 0)"

definition count_temperature_outliers :: "frame \<Rightarrow> string option \<Rightarrow> error + nat" where
  "count_temperature_outliers df temp_column =
     (case temp_column of
        None \<Rightarrow> Inr 0
      | Some c \<Rightarrow>
          if list_all (\<lambda>x. x = Null) (column df c) then Inr 0
          else
            (case numeric (filter (\<lambda>x. x \<noteq> Null) (column df c)) of
               Inl e \<Rightarrow> Inl e
             | Inr temp_data \<Rightarrow>
                 if 0 < length temp_data then Inr (outside_3_std temp_data) else Inr 0))"

definition check_data_quality ::
  "(cell \<Rightarrow> timestamp option) \<Rightarrow> frame \<Rightarrow> int \<Rightarrow> int \<Rightarrow> error + quality_report" where
  "check_data_quality to_datetime df station_id year =
     (let datetime_column =
            (if ''Date/Time (LST)'' \<in> set (columns df) then Some ''Date/Time (LST)''
             else if ''Date/Time'' \<in> set (columns df) then Some ''Date/Time''
             else None);
          temp_column =
            (if Temp_C \<in> set (columns df) then Some Temp_C
             else if Mean_Temp_C \<in> set (columns df) then Some Mean_Temp_C
             else None)
      in case find_missing_dates to_datetime df datetime_column of
           Inl e \<Rightarrow> Inl e
         | Inr missing \<Rightarrow>
             (case count_temperature_outliers df temp_column of
                Inl e \<Rightarrow> Inl e
              | Inr outliers \<Rightarrow>
                  Inr \<lparr>qr_station_id = station_id, qr_year = year,
                       record_count = length (rows df),
                       null_counts = positive_null_counts df,
                       missing_dates = missing,
                       temperature_outliers = outliers\<rparr>))"

text \<open>
  \<^verbatim>\<open>check_data_quality\<close> of \<^verbatim>\<open>data_extraction.py\<close>: one accepted name per field, and a
  result dictionary whose keys \<open>missing_dates\<close> and \<open>temperature_outliers\<close> exist only
  when the column does. The statistics skip nulls, as \<^verbatim>\<open>Series.mean\<close> and
  \<^verbatim>\<open>Series.std\<close> do.
\<close>

record extraction_results =
  ex_null_counts :: "(string \<times> nat) list"
  ex_missing_dates :: "int list option"
  ex_temperature_outliers :: "nat option"

definition check_data_quality_ex ::
  "(cell \<Rightarrow> timestamp option) \<Rightarrow> frame \<Rightarrow> error + extraction_results" where
  "check_data_quality_ex to_datetime df =
     (case (if ''Date/Time'' \<in> set (columns df)
            then map_sum id Some (find_missing_dates to_datetime df (Some ''Date/Time''))
            else Inr None) of
        Inl e \<Rightarrow> Inl e
      | Inr missing \<Rightarrow>
          (case (if Temp_C \<in> set (columns df) then
                   (case numeric (column df Temp_C) of
                      Inl e \<Rightarrow> Inl e
                    | Inr temps \<Rightarrow> Inr (Some (outside_3_std temps)))
                 else Inr None) of
             Inl e \<Rightarrow> Inl e
           | Inr outliers \<Rightarrow>
               Inr \<lparr>ex_null_counts = positive_null_counts df,
                    ex_missing_dates = missing,
                    ex_temperature_outliers = outliers\<rparr>))"

text \<open>The batch of \<^verbatim>\<open>test_check_data_quality\<close> in \<^verbatim>\<open>test_pipeline.py\<close>.\<close>

definition test_batch :: frame where
  "test_batch =
     \<lparr>columns = [''Date/Time'', Temp_C],
      rows = [[Str ''2023-01-01'', Num 5.2],
              [Str ''2023-01-02'', Num 4.8],
              [Str ''2023-01-03'', Null],
              [Str ''2023-01-05'', Num 100]]\<rparr>"


section \<open>Loading the raw batches\<close>

text \<open>
  \<^verbatim>\<open>load_weather_data\<close>, the same in both copies. The file system is a parameter: the list
  \<open>csv_files\<close> is what \<^verbatim>\<open>glob\<close> returns for \<open>station_*.csv\<close> in the raw-data directory,
  and \<open>read_csv\<close> is \<^verbatim>\<open>pd.read_csv\<close>, which returns a frame or raises. The logger is a
  list of records that the function extends.
\<close>

datatype log_record = LogInfo string | LogError string

fun error_message :: "error \<Rightarrow> string" where
  "error_message (ValueError m) = m"
| "error_message (FileNotFoundError m) = m"
| "error_message (KeyError m) = m"
| "error_message (IndexError m) = m"
| "error_message (TypeError m) = m"
| "error_message (DatabaseError m) = m"

text \<open>\<^verbatim>\<open>os.path.basename\<close>, \<^verbatim>\<open>str.replace(old, '')\<close> and \<^verbatim>\<open>str.split(sep)\<close>.\<close>

definition basename :: "string \<Rightarrow> string" where
  "basename p = rev (takeWhile (\<lambda>c. c \<noteq> CHR ''/'') (rev p))"

function remove_all :: "string \<Rightarrow> string \<Rightarrow> string" where
  "remove_all old s =
     (if old = [] \<or> s = [] then s
      else if take (length old) s = old then remove_all old (drop (length old) s)
      else hd s # remove_all old (tl s))"
  by pat_completeness auto
termination
  by (relation "measure (\<lambda>(old, s). length s)") auto

declare remove_all.simps [simp del]

fun split_on :: "char \<Rightarrow> string \<Rightarrow> string list" where
  "split_on sep [] = [[]]"
| "split_on sep (c # cs) =
     (if c = sep then [] # split_on sep cs
      else (case split_on sep cs of
              w # ws \<Rightarrow> (c # w) # ws
            | [] \<Rightarrow> [[c]]))"

text \<open>\<^verbatim>\<open>parts[i]\<close>: an index error beyond the end of the list.\<close>

definition item :: "'a list \<Rightarrow> nat \<Rightarrow> error + 'a" where
  "item xs i = (if i < length xs then Inr (xs ! i) else Inl (IndexError ''list index out of range''))"

text \<open>
  The body of the \<^verbatim>\<open>try\<close> block for one file: the frame with its two tag columns, or
  the exception, and what was logged on the way.
\<close>

definition load_file ::
  "(string \<Rightarrow> error + frame) \<Rightarrow> string \<Rightarrow> log_record list \<times> (error + frame)" where
  "load_file read_csv file =
     (let filename = basename file;
          parts = split_on CHR ''_'' (remove_all ''.csv'' filename)
      in case item parts 1 of
           Inl e \<Rightarrow> ([], Inl e)
         | Inr station_id \<Rightarrow>
             (case item parts 2 of
                Inl e \<Rightarrow> ([], Inl e)
              | Inr year \<Rightarrow>
                  ([LogInfo (''Processing '' @ filename)],
                   (case read_csv file of
                      Inl e \<Rightarrow> Inl e
                    | Inr df \<Rightarrow>
                        Inr (set_column (set_column df ''station_id'' (Str station_id))
                               ''data_year'' (Str year))))))"

text \<open>
  The loop: a file whose body raised is logged as an error and skipped, the others are
  collected in order.
\<close>

fun load_files ::
  "(string \<Rightarrow> error + frame) \<Rightarrow> string list \<Rightarrow> log_record list \<times> frame list
     \<Rightarrow> log_record list \<times> frame list" where
  "load_files read_csv [] state = state"
| "load_files read_csv (file # files) (logs, all_data) =
     (case load_file read_csv file of
        (logged, Inl e) \<Rightarrow>
          load_files read_csv files
            (logs @ logged @
               [LogError (''Error processing file '' @ file @ '': '' @ error_message e)],
             all_data)
      | (logged, Inr df) \<Rightarrow>
          load_files read_csv files (logs @ logged, all_data @ [df]))"

text \<open>
  What the loop is compared with: the frames of the files whose body does not raise, in
  the order of the files, and the error records of the files whose body raises.
\<close>

definition usable_batches :: "(string \<Rightarrow> error + frame) \<Rightarrow> string list \<Rightarrow> frame list" where
  "usable_batches read_csv files =
     concat (map (\<lambda>f. case snd (load_file read_csv f) of Inl e \<Rightarrow> [] | Inr df \<Rightarrow> [df]) files)"

definition failure_records ::
  "(string \<Rightarrow> error + frame) \<Rightarrow> string list \<Rightarrow> log_record list" where
  "failure_records read_csv files =
     concat (map (\<lambda>f. case snd (load_file read_csv f) of
                         Inl e \<Rightarrow> [LogError (''Error processing file '' @ f @ '': ''
                                              @ error_message e)]
                       | Inr df \<Rightarrow> []) files)"

fun is_error_record :: "log_record \<Rightarrow> bool" where
  "is_error_record (LogError m) = True"
| "is_error_record (LogInfo m) = False"

text \<open>
  \<^verbatim>\<open>pd.concat(frames, ignore_index=True)\<close>: the columns of all frames in the order of
  their first appearance, and under them the rows of every frame in turn, with a null
  where a frame lacks a column.
\<close>

definition concat_frames :: "frame list \<Rightarrow> frame" where
  "concat_frames fs =
     (let cols = rev (remdups (rev (concat (map columns fs))))
      in \<lparr>columns = cols, rows = concat (map (\<lambda>f. rows (select_columns f cols)) fs)\<rparr>)"

definition load_weather_data ::
  "(string \<Rightarrow> error + frame) \<Rightarrow> string \<Rightarrow> string list
     \<Rightarrow> log_record list \<times> (error + frame)" where
  "load_weather_data read_csv raw_data_dir csv_files =
     (let logs = [LogInfo (''Loading weather data from raw files in '' @ raw_data_dir)]
      in if csv_files = [] then
           (logs @ [LogError (''No raw data files found in '' @ raw_data_dir)],
            Inl (FileNotFoundError (''No raw data files found in '' @ raw_data_dir)))
         else
           (case load_files read_csv csv_files (logs, []) of
              (logs', all_data) \<Rightarrow>
                if all_data = [] then
                  (logs' @ [LogError ''No valid data files were processed''],
                   Inl (ValueError ''No valid data files were processed''))
                else (logs', Inr (concat_frames all_data))))"

text \<open>
  The two exceptions with which the loader gives up, for want of any usable batch: the
  specification calls them \<open>EmptyDatasetError\<close>.
\<close>

fun EmptyDatasetError :: "error \<Rightarrow> bool" where
  "EmptyDatasetError (FileNotFoundError m) = True"
| "EmptyDatasetError (ValueError m) = (m = ''No valid data files were processed'')"
| "EmptyDatasetError _ = False"

text \<open>
  A raw-data directory with three files: one that parses, one that \<^verbatim>\<open>pd.read_csv\<close>
  rejects, and one whose name has no year part.
\<close>

definition day_frame :: frame where
  "day_frame = \<lparr>columns = [''Date/Time'', Temp_C], rows = [[Str ''2023-01-01'', Num 5.2]]\<rparr>"

definition example_read_csv :: "string \<Rightarrow> error + frame" where
  "example_read_csv file =
     (if file = ''raw_data/station_26953_2023.csv'' \<or> file = ''raw_data/station_31688.csv''
      then Inr day_frame
      else Inl (ValueError ''No columns to parse from file''))"

definition example_files :: "string list" where
  "example_files =
     [''raw_data/station_26953_2023.csv'', ''raw_data/station_26953_2024.csv'',
      ''raw_data/station_31688.csv'']"

section \<open>Monthly aggregation\<close>

text \<open>
  \<^verbatim>\<open>transform_weather_data\<close> returns one row per (station, year, month). The station
  identifier is the string \<^verbatim>\<open>load_weather_data\<close> cuts out of the file name; year and
  month are read off the parsed timestamp. The row type is split in two so that the
  year-over-year step, which only reads the first four columns, also accepts the
  four-column frame of the test suite.
\<close>

record monthly_avg =
  station_id :: string
  year :: int
  month :: int
  temperature_celsius_avg :: real

record monthly = monthly_avg +
  temperature_celsius_min :: real
  temperature_celsius_max :: real
  date_month :: string

text \<open>
  \<^verbatim>\<open>strftime('%Y-%m')\<close>: the year in four digits, the month in two. pandas timestamps
  lie between the years 1677 and 2262.
\<close>

definition decimal_digit :: "int \<Rightarrow> char" where
  "decimal_digit k = ''0123456789'' ! nat (k mod 10)"

definition strftime_Ym :: "timestamp \<Rightarrow> string" where
  "strftime_Ym t =
     (case t of (y, m, d) \<Rightarrow>
        [decimal_digit (y div 1000), decimal_digit (y div 100), decimal_digit (y div 10),
         decimal_digit y] @ ''-'' @ [decimal_digit (m div 10), decimal_digit m])"

text \<open>
  A row that takes part in the aggregation: its station, its timestamp and its reading.
  A row with a null grouping key (no station, \<open>NaT\<close>) belongs to no group of
  \<^verbatim>\<open>groupby\<close>.
\<close>

record observation =
  o_station_id :: string
  o_datetime :: timestamp
  o_temp :: real

fun typed_row :: "cell \<times> timestamp option \<times> cell \<Rightarrow> observation option" where
  "typed_row (Str s, Some t, Num v) =
     Some \<lparr>o_station_id = s, o_datetime = t, o_temp = v\<rparr>"
| "typed_row _ = None"

fun is_number :: "cell \<Rightarrow> bool" where
  "is_number (Num v) = True"
| "is_number _ = False"

definition group_key :: "observation \<Rightarrow> string \<times> int \<times> int" where
  "group_key ob = (case o_datetime ob of (y, m, d) \<Rightarrow> (o_station_id ob, y, m))"

subsection \<open>Double-precision mean\<close>

text \<open>
  The temperature column is a column of IEEE 754 doubles, and the mean of a group is
  computed in that arithmetic: every operation returns its exact result rounded to the
  nearest double, ties to the even significand. \<open>binary_scale n x\<close> is the power of two
  \<open>2\<^sup>e\<close> with \<open>2\<^sup>e \<le> x < 2\<^sup>e\<^sup>+\<^sup>1\<close>, found by halving or doubling \<open>x\<close> at most \<open>n\<close> times; the
  doubles of that binade are the multiples of \<open>2\<^sup>e / 2\<^sup>5\<^sup>2\<close>. The 2200 steps allowed
  below cover every magnitude a double can have; overflow and subnormal numbers, which
  no temperature comes near, are not modelled.
\<close>

fun binary_scale :: "nat \<Rightarrow> real \<Rightarrow> real" where
  "binary_scale 0 x = 1"
| "binary_scale (Suc n) x =
     (if 2 \<le> x then 2 * binary_scale n (x / 2)
      else if x < 1 then binary_scale n (2 * x) / 2
      else 1)"

definition round_half_even :: "real \<Rightarrow> int" where
  "round_half_even q =
     (let f = \<lfloor>q\<rfloor>
      in if q - of_int f < 1 / 2 then f
         else if 1 / 2 < q - of_int f then f + 1
         else if even f then f else f + 1)"

definition round_double :: "real \<Rightarrow> real" where
  "round_double x =
     (if x = 0 then 0
      else let u = binary_scale 2200 \<bar>x\<bar> / 2 ^ 52
           in sgn x * of_int (round_half_even (\<bar>x\<bar> / u)) * u)"

definition fadd :: "real \<Rightarrow> real \<Rightarrow> real" where
  "fadd x y = round_double (x + y)"

definition fsub :: "real \<Rightarrow> real \<Rightarrow> real" where
  "fsub x y = round_double (x - y)"

definition fdiv :: "real \<Rightarrow> real \<Rightarrow> real" where
  "fdiv x y = round_double (x / y)"

text \<open>
  The \<open>mean\<close> of a group-by is pandas' \<^verbatim>\<open>group_mean\<close>: it adds the non-null values of
  the group with compensated (Kahan) summation,
  \<^verbatim>\<open>y = val - compensation; t = sumx + y; compensation = t - sumx - y; sumx = t\<close>, and
  divides the sum by their number. A reading written as a decimal fraction becomes the
  nearest double in the first of these operations, which is the value \<^verbatim>\<open>read_csv\<close>
  stores for it.
\<close>

fun kahan_sum :: "real \<Rightarrow> real \<Rightarrow> real list \<Rightarrow> real" where
  "kahan_sum sumx compensation [] = sumx"
| "kahan_sum sumx compensation (val # vals) =
     (let y = fsub val compensation;
          t = fadd sumx y
      in kahan_sum t (fsub (fsub t sumx) y) vals)"

definition group_mean :: "real list \<Rightarrow> real" where
  "group_mean temps = fdiv (kahan_sum 0 0 temps) (real (length temps))"

subsection \<open>Grouping\<close>

text \<open>
  \<^verbatim>\<open>groupby(['station_id', 'year', 'month']).agg({temp: ['mean', 'min', 'max'],
  'date_month': 'first'})\<close> followed by \<^verbatim>\<open>reset_index\<close> and the renaming: the groups come
  in ascending key order, each with the statistics of its own readings and the month
  label of its first row. The minimum and the maximum are readings of the group and
  involve no rounding; the mean is the double-precision mean above.
\<close>

definition aggregate :: "observation list \<Rightarrow> string \<times> int \<times> int \<Rightarrow> monthly" where
  "aggregate obs k =
     (let grp = filter (\<lambda>ob. group_key ob = k) obs;
          temps = map o_temp grp
      in \<lparr>station_id = fst k, year = fst (snd k), month = snd (snd k),
          temperature_celsius_avg = group_mean temps,
          temperature_celsius_min = Min (set temps),
          temperature_celsius_max = Max (set temps),
          date_month = (case grp of [] \<Rightarrow> [] | ob # _ \<Rightarrow> strftime_Ym (o_datetime ob))\<rparr>)"

definition groupby_agg :: "observation list \<Rightarrow> monthly list" where
  "groupby_agg obs = map (aggregate obs) (remdups (sort (map group_key obs)))"

text \<open>
  The transformation, with the two accepted temperature names as parameters, because the
  two copies of the function differ in exactly these literals. The steps are those of
  the source, in its order: resolve the timestamp column or raise; parse it; resolve the
  temperature column or raise; drop the rows with a null temperature; group and
  aggregate. \<^verbatim>\<open>groupby\<close> raises a key error without a \<open>station_id\<close> column, and the
  aggregation raises a type error on a temperature column that holds strings. Station
  identifiers are strings in this model: a numeric one is rejected by the model.
  The columns \<open>datetime\<close>, \<open>year\<close>, \<open>month\<close> and \<open>date_month\<close> that the code adds to the
  caller's frame on the way are not part of the returned value and are left out.
\<close>

definition transform_weather_data_with ::
  "string \<Rightarrow> string \<Rightarrow> (cell \<Rightarrow> timestamp option) \<Rightarrow> frame \<Rightarrow> error + monthly list" where
  "transform_weather_data_with temp1 temp2 to_datetime weather_df =
     (let datetime_column =
            (if ''Date/Time (LST)'' \<in> set (columns weather_df) then Some ''Date/Time (LST)''
             else if ''Date/Time'' \<in> set (columns weather_df) then Some ''Date/Time''
             else None)
      in case datetime_column of
           None \<Rightarrow> Inl (ValueError ''Date/Time column not found in weather data'')
         | Some dc \<Rightarrow>
             (case to_datetime_series to_datetime (column weather_df dc) of
                Inl e \<Rightarrow> Inl e
              | Inr datetime \<Rightarrow>
                  (let temp_column =
                         (if temp1 \<in> set (columns weather_df) then Some temp1
                          else if temp2 \<in> set (columns weather_df) then Some temp2
                          else None)
                   in case temp_column of
                        None \<Rightarrow>
                          Inl (ValueError ''Temperature column not found in weather data'')
                      | Some tc \<Rightarrow>
                          if ''station_id'' \<notin> set (columns weather_df)
                          then Inl (KeyError ''station_id'')
                          else
                            (let kept = filter (\<lambda>(s, t, x). x \<noteq> Null)
                                   (zip (column weather_df ''station_id'')
                                        (zip datetime (column weather_df tc)))
                             in case numeric (map (\<lambda>(s, t, x). x) kept) of
                                  Inl e \<Rightarrow> Inl e
                                | Inr _ \<Rightarrow>
                                    if list_ex (\<lambda>(s, t, x). is_number s) kept
                                    then Inl (TypeError ''station_id is not a string'')
                                    else Inr (groupby_agg
                                                (List.map_filter typed_row kept))))))"

text \<open>The function of \<^verbatim>\<open>dags/weather_utils.py\<close>.\<close>

definition transform_weather_data ::
  "(cell \<Rightarrow> timestamp option) \<Rightarrow> frame \<Rightarrow> error + monthly list" where
  "transform_weather_data = transform_weather_data_with Temp_C Mean_Temp_C"

text \<open>The function of \<^verbatim>\<open>data_transformation.py\<close>, with the literals that file holds.\<close>

definition transform_weather_data_dt ::
  "(cell \<Rightarrow> timestamp option) \<Rightarrow> frame \<Rightarrow> error + monthly list" where
  "transform_weather_data_dt = transform_weather_data_with Temp_C_dt Mean_Temp_C_dt"


text \<open>The frame of \<^verbatim>\<open>test_transform_weather_data\<close> in \<^verbatim>\<open>test_pipeline.py\<close>.\<close>

definition test_weather :: frame where
  "test_weather =
     \<lparr>columns = [''Date/Time'', Temp_C, ''station_id''],
      rows = [[Str ''2023-01-01'', Num 5.2, Str ''12345''],
              [Str ''2023-01-02'', Num 4.8, Str ''12345''],
              [Str ''2023-02-01'', Num 6.1, Str ''12345''],
              [Str ''2023-02-02'', Num 5.9, Str ''12345'']]\<rparr>"

text \<open>The two aggregates that test expects: January and February 2023 of station 12345.\<close>

definition january :: monthly where
  "january =
     \<lparr>station_id = ''12345'', year = 2023, month = 1,
      temperature_celsius_avg = 5, temperature_celsius_min = 4.8,
      temperature_celsius_max = 5.2, date_month = ''2023-01''\<rparr>"

definition february :: monthly where
  "february =
     \<lparr>station_id = ''12345'', year = 2023, month = 2,
      temperature_celsius_avg = 6, temperature_celsius_min = 5.9,
      temperature_celsius_max = 6.1, date_month = ''2023-02''\<rparr>"

text \<open>
  Three readings of 0.1 in one month. \<open>tenth\<close> is the double nearest to 0.1,
  \<open>3602879701896397 / 2\<^sup>5\<^sup>5\<close>, which is what the column holds for them; the mean pandas
  returns for the group is the next double above it, printed
  \<open>0.10000000000000002\<close>.
\<close>

definition tenth :: real where
  "tenth = 3602879701896397 / 36028797018963968"



section \<open>Year-over-year delta\<close>

text \<open>
  \<^verbatim>\<open>calculate_yoy_delta\<close> copies the frame, sorts the copy by station, month and year
  (a stable sort on the three keys) and adds the column
  \<^verbatim>\<open>groupby(['station_id', 'month'])['temperature_celsius_avg'].diff()\<close>. The result is
  the sorted list of rows, each paired with its delta; \<open>None\<close> is the \<open>NaN\<close> of a row
  with no earlier row in its group.

  \<open>group_diff\<close> is \<^verbatim>\<open>groupby(...).diff()\<close> for any row order: walking down the frame,
  every row is compared with the last row seen before it under the same key.
\<close>

fun group_diff :: "('k \<Rightarrow> real option) \<Rightarrow> ('k \<times> real) list \<Rightarrow> real option list" where
  "group_diff prev [] = []"
| "group_diff prev ((k, v) # rest) =
     (case prev k of None \<Rightarrow> None | Some p \<Rightarrow> Some (v - p))
       # group_diff (prev(k := Some v)) rest"





text \<open>
  The deltas of a run of values whose predecessor \<open>p\<close>, if any, is known: what
  \<open>group_diff\<close> leaves on the rows of one group.
\<close>

fun deltas_from :: "real option \<Rightarrow> real list \<Rightarrow> real option list" where
  "deltas_from p [] = []"
| "deltas_from p (v # vs) =
     (case p of None \<Rightarrow> None | Some a \<Rightarrow> Some (v - a)) # deltas_from (Some v) vs"

section \<open>Dimension join\<close>

text \<open>
  A frame is well formed when its column names are distinct and every row has one cell
  per column.
\<close>

definition wf_frame :: "frame \<Rightarrow> bool" where
  "wf_frame df =
     (distinct (columns df) \<and> list_all (\<lambda>r. length r = length (columns df)) (rows df))"

text \<open>
  \<^verbatim>\<open>pd.merge(left, right, on=key)\<close>, an inner join on one column that both frames have:
  every left row, in order, is paired with every right row of the same key, in order.
  The result has the left columns and then the right columns without the key; a name
  that occurs on both sides beside the key gets the suffix \<open>_x\<close> on the left and \<open>_y\<close>
  on the right.
\<close>

definition drop_nth :: "nat \<Rightarrow> 'a list \<Rightarrow> 'a list" where
  "drop_nth i xs = take i xs @ drop (Suc i) xs"

definition merge :: "frame \<Rightarrow> frame \<Rightarrow> string \<Rightarrow> error + frame" where
  "merge left right key =
     (case (col_index key (columns left), col_index key (columns right)) of
        (Some i, Some j) \<Rightarrow>
          let overlap = filter (\<lambda>c. c \<noteq> key \<and> c \<in> set (columns right)) (columns left)
          in Inr \<lparr>columns =
                    map (\<lambda>c. if c \<in> set overlap then c @ ''_x'' else c) (columns left) @
                    map (\<lambda>c. if c \<in> set overlap then c @ ''_y'' else c)
                      (drop_nth j (columns right)),
                  rows =
                    concat (map (\<lambda>l.
                      map (\<lambda>r. l @ drop_nth j r)
                        (filter (\<lambda>r. cell_at r j = cell_at l i) (rows right)))
                      (rows left))\<rparr>
      | _ \<Rightarrow> Inl (KeyError key))"

text \<open>\<^verbatim>\<open>df.drop(c, axis=1)\<close>\<close>

definition drop_column :: "frame \<Rightarrow> string \<Rightarrow> error + frame" where
  "drop_column df c =
     (case col_index c (columns df) of
        None \<Rightarrow> Inl (KeyError c)
      | Some i \<Rightarrow> Inr \<lparr>columns = drop_nth i (columns df), rows = map (drop_nth i) (rows df)\<rparr>)"

definition final_columns :: "string list" where
  "final_columns =
     [''station_name'', ''climate_id'', ''latitude'', ''longitude'', ''date_month'',
      ''feature_id'', ''map'', ''temperature_celsius_avg'', ''temperature_celsius_min'',
      ''temperature_celsius_max'', ''temperature_celsius_yoy_avg'']"

text \<open>
  \<^verbatim>\<open>join_weather_and_geonames\<close>, the same in both copies (the copy in
  \<^verbatim>\<open>data_transformation.py\<close> also builds a dictionary \<open>station_mapping\<close> and never
  reads it). The two assignments \<^verbatim>\<open>df['join_key'] = 1\<close> act on the frames the caller
  passed in, so the function returns, beside its result or its exception, the two frames
  as it leaves them. The only exception it raises on well-formed frames is the
  \<^verbatim>\<open>ValueError\<close> for the first final column that the merged frame lacks.
\<close>

definition join_weather_and_geonames ::
  "frame \<Rightarrow> frame \<Rightarrow> (error + frame) \<times> frame \<times> frame" where
  "join_weather_and_geonames weather_df geonames_df =
     (let weather_df' = set_column weather_df ''join_key'' (Num 1);
          geonames_df' = set_column geonames_df ''join_key'' (Num 1)
      in (case merge weather_df' geonames_df' ''join_key'' of
            Inl e \<Rightarrow> Inl e
          | Inr merged \<Rightarrow>
              (case drop_column merged ''join_key'' of
                 Inl e \<Rightarrow> Inl e
               | Inr combined_df \<Rightarrow>
                   (case filter (\<lambda>col. col \<notin> set (columns combined_df)) final_columns of
                      col # _ \<Rightarrow>
                        Inl (ValueError (''Required column '' @ [CHR 0x27] @ col @ [CHR 0x27]
                                          @ '' not found in combined data''))
                    | [] \<Rightarrow> Inr (select_columns combined_df final_columns))),
          weather_df', geonames_df'))"

text \<open>
  The dictionary \<open>station_mapping\<close> of \<^verbatim>\<open>data_transformation.py\<close>, from station
  identifier to climate identifier, and the number of rows of a dimension table that
  match a station under it. The join does not use either.
\<close>

definition station_mapping :: "(string \<times> string) list" where
  "station_mapping = [(''26953'', ''ABCDE''), (''31688'', ''FGHIJ'')]"

definition matching_rows :: "frame \<Rightarrow> string \<Rightarrow> nat" where
  "matching_rows geonames_df sid =
     (case map_of station_mapping sid of
        None \<Rightarrow> 0
      | Some cid \<Rightarrow> length (filter (\<lambda>c. c = Str cid) (column geonames_df ''climate_id'')))"

text \<open>
  Monthly records with their delta column for the two stations of the pipeline, one month
  each, and dimension tables as \<^verbatim>\<open>load_geonames_data\<close> returns them: one with a row for
  each of the two stations, one with the same row twice, one with no row.
\<close>

definition monthly_columns :: "string list" where
  "monthly_columns =
     [''station_id'', ''year'', ''month'', ''temperature_celsius_avg'',
      ''temperature_celsius_min'', ''temperature_celsius_max'', ''date_month'',
      ''temperature_celsius_yoy_avg'']"

definition geonames_columns :: "string list" where
  "geonames_columns =
     [''climate_id'', ''station_name'', ''feature_id'', ''latitude'', ''longitude'', ''map'']"

definition two_stations :: frame where
  "two_stations =
     \<lparr>columns = monthly_columns,
      rows = [[Str ''26953'', Num 2023, Num 1, Num 5, Num 4, Num 6, Str ''2023-01'', Null],
              [Str ''31688'', Num 2023, Num 1, Num 2, Num 1, Num 3, Str ''2023-01'', Null]]\<rparr>"

definition one_station :: frame where
  "one_station =
     \<lparr>columns = monthly_columns,
      rows = [[Str ''26953'', Num 2023, Num 1, Num 5, Num 4, Num 6, Str ''2023-01'', Null]]\<rparr>"

definition row_A :: "cell list" where
  "row_A = [Str ''ABCDE'', Str ''Alpha'', Str ''f1'', Num 45, Num (-75), Str ''m1'']"

definition row_F :: "cell list" where
  "row_F = [Str ''FGHIJ'', Str ''Foxtrot'', Str ''f2'', Num 50, Num (-100), Str ''m2'']"

definition two_dimensions :: frame where
  "two_dimensions = \<lparr>columns = geonames_columns, rows = [row_A, row_F]\<rparr>"

definition duplicate_dimension :: frame where
  "duplicate_dimension = \<lparr>columns = geonames_columns, rows = [row_A, row_A]\<rparr>"

definition no_dimension :: frame where
  "no_dimension = \<lparr>columns = geonames_columns, rows = []\<rparr>"

section \<open>Analytical queries\<close>

text \<open>
  \<^verbatim>\<open>load_data_to_sqlite\<close> replaces the table \<open>weather_data\<close> by the rows of the final
  data set, so the table is a frame. Of the five statements of \<^verbatim>\<open>run_sql_queries\<close> (the
  same in both copies) the last two are modelled, each as a function from the table to
  its result frame; a statement that names a column the table lacks makes
  \<^verbatim>\<open>pd.read_sql_query\<close> raise.

  SQLite compares values of any storage class: \<open>NULL\<close> is smaller than every number,
  every number is smaller than every text, numbers compare by value and texts byte by
  byte. \<open>ORDER BY x\<close> is ascending in this order and \<open>ORDER BY x DESC\<close> descending; rows
  with equal keys are kept here in table order.
\<close>

fun sqlite_le :: "cell \<Rightarrow> cell \<Rightarrow> bool" where
  "sqlite_le Null b = True"
| "sqlite_le (Num x) Null = False"
| "sqlite_le (Num x) (Num y) = (x \<le> y)"
| "sqlite_le (Num x) (Str t) = True"
| "sqlite_le (Str s) (Str t) = (s \<le> t)"
| "sqlite_le (Str s) b = False"

fun insert_by :: "('a \<Rightarrow> 'a \<Rightarrow> bool) \<Rightarrow> 'a \<Rightarrow> 'a list \<Rightarrow> 'a list" where
  "insert_by le x [] = [x]"
| "insert_by le x (y # ys) = (if le x y then x # y # ys else y # insert_by le x ys)"

definition order_by :: "('a \<Rightarrow> 'a \<Rightarrow> bool) \<Rightarrow> 'a list \<Rightarrow> 'a list" where
  "order_by le xs = foldr (insert_by le) xs []"

text \<open>
  \<^verbatim>\<open>SELECT station_name, date_month, key AS name FROM weather_data ORDER BY key\<close>
  \<^verbatim>\<open>[DESC] LIMIT 10\<close>: the rows are cut down to the three selected cells, the ordered
  cell last.
\<close>

definition select_ordered ::
  "frame \<Rightarrow> string \<Rightarrow> string \<Rightarrow> bool \<Rightarrow> error + frame" where
  "select_ordered weather_data key name descending =
     (case (col_index ''station_name'' (columns weather_data),
            col_index ''date_month'' (columns weather_data),
            col_index key (columns weather_data)) of
        (Some i, Some j, Some k) \<Rightarrow>
          Inr \<lparr>columns = [''station_name'', ''date_month'', name],
               rows = take 10
                 (order_by (\<lambda>a b. if descending then sqlite_le (b ! 2) (a ! 2)
                                     else sqlite_le (a ! 2) (b ! 2))
                    (map (\<lambda>r. [cell_at r i, cell_at r j, cell_at r k])
                       (rows weather_data)))\<rparr>
      | _ \<Rightarrow> Inl (DatabaseError ''no such column''))"

definition extreme_high_temps :: "frame \<Rightarrow> error + frame" where
  "extreme_high_temps weather_data =
     select_ordered weather_data ''temperature_celsius_max'' ''max_temperature'' True"

definition extreme_low_temps :: "frame \<Rightarrow> error + frame" where
  "extreme_low_temps weather_data =
     select_ordered weather_data ''temperature_celsius_min'' ''min_temperature'' False"

text \<open>
  A table of twelve months of one station, with maxima 1 to 12 in table order, each
  minimum ten below its maximum, and no maximum for the last month.
\<close>

definition year_row :: "int \<Rightarrow> cell list" where
  "year_row n =
     [Str ''Alpha'', Str ''ABCDE'', Num 45, Num (-75),
      Str (''2023-'' @ [decimal_digit (n div 10), decimal_digit n]),
      Str ''f1'', Str ''m1'', Num (real_of_int n - 5), Num (real_of_int n - 10),
      (if n = 12 then Null else Num (real_of_int n)), Null]"

definition year_table :: frame where
  "year_table =
     \<lparr>columns = final_columns,
      rows = map year_row [1, 2, 3, 4, 5, 6, 7, 8, 9, 10, 11, 12]\<rparr>"

section \<open>Saving the analysis results\<close>

text \<open>
  \<^verbatim>\<open>save_analysis_results\<close> of \<^verbatim>\<open>dags/weather_utils.py\<close>. Its argument \<open>results\<close> is
  whatever arrives from the previous task: a string, \<^verbatim>\<open>None\<close>, a dictionary from
  query names to values, or any other object, which is kept here as the string
  \<^verbatim>\<open>str(results)\<close>. A value of the dictionary is an object with a method \<^verbatim>\<open>to_dict\<close>
  (a data frame, kept as the list of its records, or an object whose \<^verbatim>\<open>to_dict\<close>
  raises), a value \<^verbatim>\<open>json.dump\<close> can write, or one it cannot.
\<close>

datatype json =
    JNull
  | JString string
  | JNumber real
  | JArray "json list"
  | JObject "(string \<times> json) list"

datatype result_value =
    Records "json list"
  | Plain json
  | Unserializable
  | ToDictRaises string

datatype payload =
    PyStr string
  | PyNone
  | PyDict "(string \<times> result_value) list"
  | PyOther string

text \<open>
  The part of the file system the function touches: the directories that exist, and the
  files written, the newest first; a file that was opened for writing and whose dump
  failed has no content.
\<close>

record filesystem =
  directories :: "string list"
  files_written :: "(string \<times> json option) list"

text \<open>\<^verbatim>\<open>os.path.join\<close> for two components.\<close>

definition path_join :: "string \<Rightarrow> string \<Rightarrow> string" where
  "path_join a b =
     (if b \<noteq> [] \<and> hd b = CHR ''/'' then b
      else if a = [] \<or> last a = CHR ''/'' then a @ b
      else a @ ''/'' @ b)"

text \<open>
  \<^verbatim>\<open>ensure_dir\<close>: \<^verbatim>\<open>os.makedirs\<close> unless the path exists; the empty path does not
  exist and cannot be made.
\<close>

definition ensure_dir :: "string \<Rightarrow> filesystem \<Rightarrow> error + filesystem" where
  "ensure_dir directory fs =
     (if directory \<in> set (directories fs) then Inr fs
      else if directory = [] then Inl (FileNotFoundError directory)
      else Inr (fs\<lparr>directories := directory # directories fs\<rparr>))"

text \<open>
  \<^verbatim>\<open>with open(output_path, 'w') as f: json.dump(content, f, indent=2)\<close>, for a file
  name without a directory part: opening fails when the output directory does not exist
  (the empty directory is the current one); a value that cannot be written makes the dump
  raise after the file was opened.
\<close>

definition dump_to ::
  "string \<Rightarrow> string \<Rightarrow> (string \<times> json option) list \<Rightarrow> filesystem \<Rightarrow> error + filesystem" where
  "dump_to output_dir output_path content fs =
     (if output_dir \<noteq> [] \<and> output_dir \<notin> set (directories fs)
      then Inl (FileNotFoundError output_path)
      else Inr (fs\<lparr>files_written :=
                  (output_path,
                   if list_all (\<lambda>(k, v). v \<noteq> None) content
                   then Some (JObject (map (\<lambda>(k, v). (k, the v)) content))
                   else None) # files_written fs\<rparr>))"

definition dump_raises :: "(string \<times> json option) list \<Rightarrow> bool" where
  "dump_raises content = (\<not> list_all (\<lambda>(k, v). v \<noteq> None) content)"

text \<open>
  The dictionary comprehension over \<open>results.items()\<close>: a data frame becomes its
  records, another value stays, and the first \<^verbatim>\<open>to_dict\<close> that raises ends the
  comprehension with its exception.
\<close>

fun convert_items ::
  "(string \<times> result_value) list \<Rightarrow> string + (string \<times> json option) list" where
  "convert_items [] = Inr []"
| "convert_items ((name, ToDictRaises m) # rest) = Inl m"
| "convert_items ((name, v) # rest) =
     (case convert_items rest of
        Inl m \<Rightarrow> Inl m
      | Inr converted \<Rightarrow>
          Inr ((name,
                (case v of
                   Records rs \<Rightarrow> Some (JArray rs)
                 | Plain j \<Rightarrow> Some j
                 | _ \<Rightarrow> None)) # converted))"

text \<open>
  The function returns the output path or raises, and leaves the file system changed.
  A string is written at once, before the output directory is ensured, and the function
  returns there; the later branch for strings is never reached. For everything else the
  directory is ensured first, the dictionary to write is chosen by the shape of
  \<open>results\<close>, with an exception during that choice turned into an \<open>error\<close> entry, and
  an exception of the dump is raised again.
\<close>

definition save_analysis_results ::
  "payload \<Rightarrow> string \<Rightarrow> string \<Rightarrow> filesystem \<Rightarrow> (error + string) \<times> filesystem" where
  "save_analysis_results results output_dir output_file fs =
     (let output_path = path_join output_dir output_file
      in case results of
           PyStr s \<Rightarrow>
             (case dump_to output_dir output_path [(''raw_data'', Some (JString s))] fs of
                Inl e \<Rightarrow> (Inl e, fs)
              | Inr fs' \<Rightarrow> (Inr output_path, fs'))
         | _ \<Rightarrow>
             (case ensure_dir output_dir fs of
                Inl e \<Rightarrow> (Inl e, fs)
              | Inr fs1 \<Rightarrow>
                  (let results_dict =
                         (case results of
                            PyDict items \<Rightarrow>
                              (case convert_items items of
                                 Inl m \<Rightarrow> [(''error'', Some (JString m))]
                               | Inr converted \<Rightarrow> converted)
                          | PyNone \<Rightarrow>
                              [(''error'', Some (JString ''No results data available''))]
                          | PyOther s \<Rightarrow> [(''raw_data'', Some (JString s))]
                          | PyStr s \<Rightarrow> [(''raw_data'', Some (JString s))])
                   in case dump_to output_dir output_path results_dict fs1 of
                        Inl e \<Rightarrow> (Inl e, fs1)
                      | Inr fs' \<Rightarrow>
                          if dump_raises results_dict
                          then (Inl (TypeError ''Object is not JSON serializable''), fs')
                          else (Inr output_path, fs'))))"

text \<open>
  The artifact the specification promises for each shape of payload, a mapping being
  well formed when each of its values is a data frame or can be written as it is.
\<close>

fun well_formed :: "payload \<Rightarrow> bool" where
  "well_formed (PyDict items) =
     list_all (\<lambda>(name, v). case v of Records rs \<Rightarrow> True | Plain j \<Rightarrow> True | _ \<Rightarrow> False) items"
| "well_formed _ = True"

fun expected_artifact :: "payload \<Rightarrow> json" where
  "expected_artifact (PyStr s) = JObject [(''raw_data'', JString s)]"
| "expected_artifact PyNone = JObject [(''error'', JString ''No results data available'')]"
| "expected_artifact (PyOther s) = JObject [(''raw_data'', JString s)]"
| "expected_artifact (PyDict items) =
     JObject (map (\<lambda>(name, v). (name, case v of Records rs \<Rightarrow> JArray rs | Plain j \<Rightarrow> j
                                          | _ \<Rightarrow> JNull)) items)"

definition empty_disk :: filesystem where
  "empty_disk = \<lparr>directories = [], files_written = []\<rparr>"

section \<open>Verified properties\<close>

subsection \<open>Frames\<close>

lemma col_index_Some: "c \<in> set cs \<Longrightarrow> \<exists>i. col_index c cs = Some i"
  by (induction cs) auto

lemma col_index_None: "c \<notin> set cs \<Longrightarrow> col_index c cs = None"
  by (induction cs) auto


subsection \<open>Quality audit: outliers and null counts\<close>

lemma mean_Some: "xs \<noteq> [] \<Longrightarrow> \<exists>m. mean xs = Some m"
  by (simp add: mean_def)

lemma std_Some: "2 \<le> length xs \<Longrightarrow> \<exists>s. std xs = Some s"
  by (simp add: std_def Let_def)

lemma std_lower_bound:
  assumes "std xs = Some s"
    and "a\<^sup>2 * real (length xs - 1)
           \<le> sum_list (map (\<lambda>x. (x - sum_list xs / real (length xs))\<^sup>2) xs)"
  shows "a \<le> s"
proof -
  have len: "2 \<le> length xs"
    and s: "s = sqrt (sum_list (map (\<lambda>x. (x - sum_list xs / real (length xs))\<^sup>2) xs)
                       / real (length xs - 1))"
    using assms(1) by (auto simp: std_def Let_def split: if_splits)
  have "0 < real (length xs - 1)" using len by simp
  then have "a\<^sup>2 \<le> sum_list (map (\<lambda>x. (x - sum_list xs / real (length xs))\<^sup>2) xs)
                  / real (length xs - 1)"
    using assms(2) by (simp add: pos_le_divide_eq)
  then show ?thesis unfolding s by (rule real_le_rsqrt)
qed

text \<open>
  The three non-null readings of the test batch have mean \<open>110/3\<close> and a sample
  standard deviation above 22, so the band reaches from below \<open>-29\<close> to above \<open>102\<close>.
\<close>

lemma no_outlier_test_readings:
  assumes "mean [5.2, 4.8, 100] = Some m" and "std [5.2, 4.8, 100] = Some s"
  shows "filter (\<lambda>x. x < m - 3 * s \<or> x > m + 3 * s) [5.2, 4.8, 100] = []"
proof -
  have m: "m = 110 / 3" using assms(1) by (simp add: mean_def)
  have s: "22 \<le> s" using assms(2) by (rule std_lower_bound) (simp add: power2_eq_square)
  show ?thesis using m s by simp
qed

lemma outside_3_std_test_readings: "outside_3_std [5.2, 4.8, 100] = 0"
proof -
  obtain m where m: "mean [5.2, 4.8, 100::real] = Some m"
    using mean_Some [of "[5.2, 4.8, 100]"] by auto
  obtain s where s: "std [5.2, 4.8, 100::real] = Some s"
    using std_Some [of "[5.2, 4.8, 100]"] by auto
  have f: "filter (\<lambda>x. x < m - 3 * s \<or> x > m + 3 * s) [5.2, 4.8, 100] = []"
    using m s by (rule no_outlier_test_readings)
  show ?thesis
    unfolding outside_3_std_def m s
    by (simp only: prod.case option.case Let_def f list.size)
qed

lemma count_outliers_test_readings:
  assumes "column df c = [Num 5.2, Num 4.8, Null, Num 100]"
  shows "count_temperature_outliers df (Some c) = Inr 0"
proof -
  have n: "numeric (filter (\<lambda>x. x \<noteq> Null) (column df c)) = Inr [5.2, 4.8, 100]"
    and na: "\<not> list_all (\<lambda>x. x = Null) (column df c)"
    by (simp_all add: assms)
  show ?thesis
    unfolding count_temperature_outliers_def
    by (simp only: n na option.case if_False sum.case outside_3_std_test_readings
          if_cancel)
qed

lemma map_of_positive_null_counts:
  "map_of (positive_null_counts df) c =
     (if c \<in> set (columns df) \<and> 0 < length (filter (\<lambda>x. x = Null) (column df c))
      then Some (length (filter (\<lambda>x. x = Null) (column df c))) else None)"
proof -
  have "map_of (filter (\<lambda>(c, n). 0 < n) (map (\<lambda>c. (c, f c)) cs)) c =
          (if c \<in> set cs \<and> 0 < f c then Some (f c) else None)"
    for f :: "string \<Rightarrow> nat" and cs
    by (induction cs) auto
  then show ?thesis by (simp add: positive_null_counts_def isnull_sum_def)
qed

lemma null_count_test_readings:
  assumes "c \<in> set (columns df)" and "column df c = [Num 5.2, Num 4.8, Null, Num 100]"
  shows "map_of (positive_null_counts df) c = Some 1"
  using assms by (simp add: map_of_positive_null_counts)


lemma check_data_quality_ex_parts:
  assumes "check_data_quality_ex to_datetime df = Inr res"
  shows "Temp_C \<in> set (columns df) \<Longrightarrow>
           map_sum id ex_temperature_outliers (Inr res :: error + extraction_results)
             = map_sum id (\<lambda>temps. Some (outside_3_std temps)) (numeric (column df Temp_C))"
    and "ex_null_counts res = positive_null_counts df"
    and "''Date/Time'' \<in> set (columns df) \<Longrightarrow>
           map_sum id Some (find_missing_dates to_datetime df (Some ''Date/Time''))
             = Inr (ex_missing_dates res)"
  using assms unfolding check_data_quality_ex_def
  by (auto split: sum.splits if_splits)

lemma test_batch_Temp: "column test_batch Temp_C = [Num 5.2, Num 4.8, Null, Num 100]"
  by (simp add: test_batch_def column_def cell_at_def Temp_C_def)

lemma test_batch_missing:
  "find_missing_dates iso_date test_batch (Some ''Date/Time'') = Inr [738524]"
  by (simp add: find_missing_dates_def test_batch_def column_def cell_at_def
        to_datetime_series_def iso_date_def digit_def toordinal_def days_before_year_def
        days_before_month_def days_in_month_def is_leap_def Temp_C_def)

lemma test_batch_nulls: "positive_null_counts test_batch = [(Temp_C, 1)]"
  by (simp add: positive_null_counts_def isnull_sum_def test_batch_def column_def
        cell_at_def Temp_C_def)

lemma test_batch_columns:
  "''Date/Time (LST)'' \<notin> set (columns test_batch)"
  "''Date/Time'' \<in> set (columns test_batch)"
  "Temp_C \<in> set (columns test_batch)"
  "length (rows test_batch) = 4"
  by (simp_all add: test_batch_def Temp_C_def)

lemma test_batch_report:
  "check_data_quality iso_date test_batch 12345 2023 =
     Inr \<lparr>qr_station_id = 12345, qr_year = 2023, record_count = 4,
          null_counts = [(Temp_C, 1)], missing_dates = [738524],
          temperature_outliers = 0\<rparr>"
  unfolding check_data_quality_def
  by (simp only: test_batch_columns if_True if_False Let_def test_batch_missing
        test_batch_nulls count_outliers_test_readings [OF test_batch_Temp] sum.case)

lemma test_batch_results:
  "check_data_quality_ex iso_date test_batch =
     Inr \<lparr>ex_null_counts = [(Temp_C, 1)], ex_missing_dates = Some [738524],
          ex_temperature_outliers = Some 0\<rparr>"
proof -
  have n: "numeric (column test_batch Temp_C) = Inr [5.2, 4.8, 100]"
    by (simp add: test_batch_Temp)
  show ?thesis
    unfolding check_data_quality_ex_def
    by (simp only: test_batch_columns if_True test_batch_missing test_batch_nulls n
          outside_3_std_test_readings sum.case map_sum.simps id_apply)
qed

lemma std_upper_bound:
  assumes "std xs = Some s"
    and "0 \<le> a"
    and "sum_list (map (\<lambda>x. (x - sum_list xs / real (length xs))\<^sup>2) xs)
           \<le> a\<^sup>2 * real (length xs - 1)"
  shows "s \<le> a"
proof -
  have len: "2 \<le> length xs"
    and s: "s = sqrt (sum_list (map (\<lambda>x. (x - sum_list xs / real (length xs))\<^sup>2) xs)
                       / real (length xs - 1))"
    using assms(1) by (auto simp: std_def Let_def split: if_splits)
  have "0 < real (length xs - 1)" using len by simp
  then have "sum_list (map (\<lambda>x. (x - sum_list xs / real (length xs))\<^sup>2) xs)
                  / real (length xs - 1) \<le> a\<^sup>2"
    using assms(3) by (simp add: pos_divide_le_eq)
  then show ?thesis unfolding s using assms(2) by (simp add: real_le_lsqrt)
qed

text \<open>
  The band is not vacuous: beside eleven readings of 5 the reading 100 is counted. The
  twelve readings have mean \<open>155/12\<close> and a sample standard deviation between 3 and
  28, so the band ends below \<open>97\<close> and starts below \<open>5\<close>.
\<close>

lemma outlier_among_twelve_readings:
  assumes "mean [5, 5, 5, 5, 5, 5, 5, 5, 5, 5, 5, 100] = Some m"
    and "std [5, 5, 5, 5, 5, 5, 5, 5, 5, 5, 5, 100] = Some s"
  shows "filter (\<lambda>x. x < m - 3 * s \<or> x > m + 3 * s)
           [5, 5, 5, 5, 5, 5, 5, 5, 5, 5, 5, 100] = [100]"
proof -
  have m: "m = 155 / 12" using assms(1) by (simp add: mean_def)
  have lo: "3 \<le> s" using assms(2) by (rule std_lower_bound) (simp add: power2_eq_square)
  have hi: "s \<le> 28"
    using assms(2) by (rule std_upper_bound) (simp_all add: power2_eq_square)
  show ?thesis using m lo hi by simp
qed

lemma outside_3_std_twelve_readings:
  "outside_3_std [5, 5, 5, 5, 5, 5, 5, 5, 5, 5, 5, 100] = 1"
proof -
  obtain m where m: "mean [5, 5, 5, 5, 5, 5, 5, 5, 5, 5, 5, 100::real] = Some m"
    using mean_Some [of "[5, 5, 5, 5, 5, 5, 5, 5, 5, 5, 5, 100]"] by auto
  obtain s where s: "std [5, 5, 5, 5, 5, 5, 5, 5, 5, 5, 5, 100::real] = Some s"
    using std_Some [of "[5, 5, 5, 5, 5, 5, 5, 5, 5, 5, 5, 100]"] by auto
  have f: "filter (\<lambda>x. x < m - 3 * s \<or> x > m + 3 * s)
             [5, 5, 5, 5, 5, 5, 5, 5, 5, 5, 5, 100] = [100]"
    using m s by (rule outlier_among_twelve_readings)
  show ?thesis
    unfolding outside_3_std_def m s
    by (simp only: prod.case option.case Let_def f list.size)
qed

lemma test_readings_band:
  "mean [5.2, 4.8, 100] = Some (110 / 3)"
  "\<exists>s. std [5.2, 4.8, 100] = Some s \<and> 22 \<le> s \<and> 100 \<le> 110 / 3 + 3 * s"
proof -
  show "mean [5.2, 4.8, 100] = Some (110 / 3)" by (simp add: mean_def)
  obtain s where s: "std [5.2, 4.8, 100::real] = Some s"
    using std_Some [of "[5.2, 4.8, 100]"] by auto
  have "22 \<le> s" using s by (rule std_lower_bound) (simp add: power2_eq_square)
  then show "\<exists>s. std [5.2, 4.8, 100] = Some s \<and> 22 \<le> s \<and> 100 \<le> 110 / 3 + 3 * s"
    using s by auto
qed

text \<open>
  Claim C2 does not hold of the code. On the batch of \<^verbatim>\<open>test_check_data_quality\<close>, whose
  temperature readings are \<open>[5.2, 4.8, null, 100.0]\<close>, both versions of the audit return
  a report with one null in the temperature column and with no temperature outlier, where
  the claim, and the assertion \<^verbatim>\<open>assertGreater(results['temperature_outliers'], 0)\<close> of
  that test, require at least one. The three non-null readings have mean \<open>110/3\<close> and a
  sample standard deviation above 22, so \<open>100.0\<close> lies inside mean \<open>\<plusminus>\<close> 3 standard
  deviations and is not counted; beside eleven readings of 5 the same reading is counted.
\<close>

theorem test_batch_outlier_not_counted:
  "check_data_quality iso_date test_batch 12345 2023 =
     Inr \<lparr>qr_station_id = 12345, qr_year = 2023, record_count = 4,
          null_counts = [(Temp_C, 1)], missing_dates = [738524],
          temperature_outliers = 0\<rparr> \<and>
   check_data_quality_ex iso_date test_batch =
     Inr \<lparr>ex_null_counts = [(Temp_C, 1)], ex_missing_dates = Some [738524],
          ex_temperature_outliers = Some 0\<rparr> \<and>
   column test_batch Temp_C = [Num 5.2, Num 4.8, Null, Num 100] \<and>
   mean [5.2, 4.8, 100] = Some (110 / 3) \<and>
   (\<exists>s. std [5.2, 4.8, 100] = Some s \<and> 22 \<le> s \<and> 100 \<le> 110 / 3 + 3 * s) \<and>
   outside_3_std [5.2, 4.8, 100] = 0 \<and>
   outside_3_std [5, 5, 5, 5, 5, 5, 5, 5, 5, 5, 5, 100] = 1"
  using test_batch_report test_batch_results test_batch_Temp test_readings_band
    outside_3_std_test_readings outside_3_std_twelve_readings
  by (intro conjI)

subsection \<open>Quality audit: missing dates\<close>







subsection \<open>Monthly aggregation\<close>




text \<open>
  The rounding model: \<open>binary_scale\<close> brackets its argument between two consecutive
  powers of two, and a rounded result differs from the exact one by at most half a unit
  in the last place, that is by a relative error of at most \<open>2\<^sup>-\<^sup>5\<^sup>3\<close>.
\<close>

lemma binary_scale_bracket:
  "1 / 2 ^ n \<le> x \<Longrightarrow> x < 2 ^ n \<Longrightarrow> binary_scale n x \<le> x \<and> x < 2 * binary_scale n x"
proof (induction n arbitrary: x)
  case 0
  then show ?case by simp
next
  case (Suc n)
  consider "2 \<le> x" | "x < 1" | "1 \<le> x" "x < 2" by linarith
  then show ?case
  proof cases
    case 1
    have "1 / 2 ^ n \<le> (1::real)" by (simp add: divide_le_eq)
    then have "1 / 2 ^ n \<le> x / 2" using 1 by linarith
    moreover have "x / 2 < 2 ^ n" using Suc.prems(2) by simp
    ultimately have "binary_scale n (x / 2) \<le> x / 2 \<and> x / 2 < 2 * binary_scale n (x / 2)"
      by (rule Suc.IH)
    then show ?thesis using 1 by simp
  next
    case 2
    show ?thesis
    proof (cases n)
      case 0
      then show ?thesis using 2 Suc.prems by simp
    next
      case (Suc k)
      have "1 / 2 ^ n \<le> 2 * x" using Suc.prems(1) by (simp add: field_simps)
      moreover have "(2::real) \<le> 2 ^ n" using Suc by simp
      then have "2 * x < 2 ^ n" using 2 by linarith
      ultimately have "binary_scale n (2 * x) \<le> 2 * x \<and> 2 * x < 2 * binary_scale n (2 * x)"
        by (rule Suc.IH)
      then show ?thesis using 2 by simp
    qed
  next
    case 3
    then show ?thesis by simp
  qed
qed

lemma round_half_even_nearest: "\<bar>of_int (round_half_even q) - q\<bar> \<le> 1 / 2"
  unfolding round_half_even_def Let_def by (auto simp: abs_le_iff)

lemma round_double_error:
  assumes "1 / 2 ^ 2200 \<le> \<bar>x\<bar>" and "\<bar>x\<bar> < 2 ^ 2200"
  shows "\<bar>round_double x - x\<bar> \<le> \<bar>x\<bar> / 2 ^ 53"
proof -
  define u where "u = binary_scale 2200 \<bar>x\<bar> / 2 ^ 52"
  have b: "binary_scale 2200 \<bar>x\<bar> \<le> \<bar>x\<bar>" "\<bar>x\<bar> < 2 * binary_scale 2200 \<bar>x\<bar>"
    using binary_scale_bracket [OF assms] by simp_all
  have x0: "x \<noteq> 0" using assms(1) by auto
  have u0: "0 < u" using b x0 by (simp add: u_def)
  have u2: "u / 2 \<le> \<bar>x\<bar> / 2 ^ 53" using b(1) by (simp add: u_def)
  define k where "k = round_half_even (\<bar>x\<bar> / u)"
  have rd: "round_double x = sgn x * of_int k * u"
    using x0 by (simp add: round_double_def Let_def u_def k_def)
  have "round_double x - x = sgn x * (of_int k - \<bar>x\<bar> / u) * u"
    using u0 unfolding rd by (simp add: algebra_simps sgn_real_def abs_real_def)
  then have "\<bar>round_double x - x\<bar> = \<bar>of_int k - \<bar>x\<bar> / u\<bar> * u"
    using u0 x0 by (simp add: abs_mult sgn_real_def)
  also have "\<dots> \<le> 1 / 2 * u"
    using round_half_even_nearest [of "\<bar>x\<bar> / u"] u0 unfolding k_def
    by (intro mult_right_mono) simp_all
  finally show ?thesis using u2 by simp
qed

text \<open>Evaluating the rounding on numerals.\<close>

lemma binary_scale_numeral:
  "binary_scale (numeral k) x =
     (if 2 \<le> x then 2 * binary_scale (pred_numeral k) (x / 2)
      else if x < 1 then binary_scale (pred_numeral k) (2 * x) / 2
      else 1)"
  by (simp add: numeral_eq_Suc)

lemmas double_arith = fadd_def fsub_def fdiv_def round_double_def binary_scale_numeral
  round_half_even_def Let_def


text \<open>
  The two groups of the test frame: the readings 5.2 and 4.8 become the doubles
  \<open>5854679515581645 / 2\<^sup>5\<^sup>0\<close> and \<open>5404319552844595 / 2\<^sup>5\<^sup>0\<close>, whose sum is exactly
  10, and likewise 6.1 and 5.9 add up to exactly 12.
\<close>

lemma group_mean_january: "group_mean [5.2, 4.8] = 5"
  by (simp add: group_mean_def double_arith)

lemma group_mean_february: "group_mean [6.1, 5.9] = 6"
  by (simp add: group_mean_def double_arith)

lemma group_mean_reduced: "group_mean [26 / 5, 24 / 5] = 5" "group_mean [61 / 10, 59 / 10] = 6"
  using group_mean_january group_mean_february by simp_all



text \<open>
  Adding the three readings from left to right without the compensation term, as older
  versions of the library do, gives the same double.
\<close>

lemma plain_mean_tenths:
  "fdiv (fadd (fadd (fadd 0 tenth) tenth) tenth) 3 = 7205759403792795 / 72057594037927936"
proof -
  have a: "fadd 0 tenth = tenth" by (simp add: tenth_def double_arith)
  have b: "fadd tenth tenth = 2 * tenth" by (simp add: tenth_def double_arith)
  have c: "fadd (2 * tenth) tenth = 1351079888211149 / 4503599627370496"
    by (simp add: tenth_def double_arith)
  have d: "fdiv (1351079888211149 / 4503599627370496) 3
             = 7205759403792795 / 72057594037927936"
    by (simp add: double_arith)
  show ?thesis by (simp only: a b c d)
qed

lemma aggregate_fields:
  "station_id (aggregate obs k) = fst k"
  "year (aggregate obs k) = fst (snd k)"
  "month (aggregate obs k) = snd (snd k)"
  "temperature_celsius_avg (aggregate obs k)
     = group_mean (map o_temp (filter (\<lambda>ob. group_key ob = k) obs))"
  "temperature_celsius_min (aggregate obs k)
     = Min (set (map o_temp (filter (\<lambda>ob. group_key ob = k) obs)))"
  "temperature_celsius_max (aggregate obs k)
     = Max (set (map o_temp (filter (\<lambda>ob. group_key ob = k) obs)))"
  by (simp_all add: aggregate_def Let_def)





lemma transform_result:
  assumes "transform_weather_data_with temp1 temp2 to_datetime df = Inr result"
  shows "\<exists>dc tc.
           dc \<in> set (columns df) \<and>
           dc = (if ''Date/Time (LST)'' \<in> set (columns df) then ''Date/Time (LST)''
                 else ''Date/Time'') \<and>
           tc \<in> set (columns df) \<and>
           tc = (if temp1 \<in> set (columns df) then temp1 else temp2) \<and>
           ''station_id'' \<in> set (columns df) \<and>
           result = groupby_agg (List.map_filter typed_row
             (filter (\<lambda>(s, t, x). x \<noteq> Null)
               (zip (column df ''station_id'')
                 (zip (map (\<lambda>c. if c = Null then None else to_datetime c) (column df dc))
                      (column df tc)))))"
  using assms unfolding transform_weather_data_with_def Let_def to_datetime_series_def
  by (auto split: if_splits option.splits sum.splits)


text \<open>
  The aggregator returns at most one row per (station, year, month): its output is a set
  of monthly aggregates in the sense of the year-over-year step below.
\<close>

lemma groupby_agg_keys:
  "map (\<lambda>m. (station_id m, year m, month m)) (groupby_agg obs)
     = remdups (sort (map group_key obs))"
  by (simp add: groupby_agg_def aggregate_fields comp_def)

lemma transform_distinct_keys:
  assumes "transform_weather_data_with temp1 temp2 to_datetime df = Inr result"
  shows "distinct (map (\<lambda>m. (station_id m, year m, month m)) result)"
  using transform_result [OF assms] by (auto simp: groupby_agg_keys)

lemma test_weather_columns:
  "column test_weather ''Date/Time''
     = [Str ''2023-01-01'', Str ''2023-01-02'', Str ''2023-02-01'', Str ''2023-02-02'']"
  "column test_weather Temp_C = [Num 5.2, Num 4.8, Num 6.1, Num 5.9]"
  "column test_weather ''station_id''
     = [Str ''12345'', Str ''12345'', Str ''12345'', Str ''12345'']"
  "''Date/Time (LST)'' \<notin> set (columns test_weather)"
  "''Date/Time'' \<in> set (columns test_weather)"
  "Temp_C \<in> set (columns test_weather)"
  "''station_id'' \<in> set (columns test_weather)"
  "Temp_C_dt \<notin> set (columns test_weather)"
  "Mean_Temp_C_dt \<notin> set (columns test_weather)"
  by (simp_all add: test_weather_def column_def cell_at_def Temp_C_def Temp_C_dt_def
        Mean_Temp_C_dt_def degree_def degree_dt_def)

lemma test_weather_parsed:
  "to_datetime_series iso_date
     [Str ''2023-01-01'', Str ''2023-01-02'', Str ''2023-02-01'', Str ''2023-02-02'']
     = Inr [Some (2023, 1, 1), Some (2023, 1, 2), Some (2023, 2, 1), Some (2023, 2, 2)]"
  by (simp add: to_datetime_series_def iso_date_def digit_def)

lemma test_weather_monthly:
  "transform_weather_data_with Temp_C Mean_Temp_C iso_date test_weather
     = Inr [january, february]"
  unfolding transform_weather_data_with_def
  by (simp add: Let_def test_weather_columns test_weather_parsed List.map_filter_simps
        groupby_agg_def group_key_def aggregate_def january_def february_def
        strftime_Ym_def decimal_digit_def group_mean_reduced)








subsection \<open>Column resolution\<close>

text \<open>
  What the shared body of the two copies does with the column names: the first accepted
  name that is present is the one used, and a frame with none of the two timestamp names,
  or none of the two temperature names, is refused with the \<^verbatim>\<open>ValueError\<close> that plays the
  part of the specification's schema error. The timestamp names are tried first.
\<close>

lemma transform_schema_errors:
  "''Date/Time (LST)'' \<notin> set (columns df) \<Longrightarrow> ''Date/Time'' \<notin> set (columns df) \<Longrightarrow>
     transform_weather_data_with temp1 temp2 to_datetime df
       = Inl (ValueError ''Date/Time column not found in weather data'')"
  "to_datetime_series to_datetime (column df
       (if ''Date/Time (LST)'' \<in> set (columns df) then ''Date/Time (LST)'' else ''Date/Time''))
     = Inr ts \<Longrightarrow>
   ''Date/Time (LST)'' \<in> set (columns df) \<or> ''Date/Time'' \<in> set (columns df) \<Longrightarrow>
   temp1 \<notin> set (columns df) \<Longrightarrow> temp2 \<notin> set (columns df) \<Longrightarrow>
     transform_weather_data_with temp1 temp2 to_datetime df
       = Inl (ValueError ''Temperature column not found in weather data'')"
  unfolding transform_weather_data_with_def Let_def by auto

text \<open>
  Claim C7 holds for the copy in \<^verbatim>\<open>dags/weather_utils.py\<close> and fails for the copy in
  \<^verbatim>\<open>data_transformation.py\<close>, whose two temperature literals do not hold the degree
  sign: on the frame of the repository's own test, which has the column
  \<open>Temp (\<degree>C)\<close>, the first copy returns the two monthly aggregates and the second
  raises the error for a missing temperature column.
\<close>

theorem temperature_name_not_resolved:
  "Temp_C \<in> set (columns test_weather) \<and>
   transform_weather_data iso_date test_weather = Inr [january, february] \<and>
   transform_weather_data_dt iso_date test_weather
     = Inl (ValueError ''Temperature column not found in weather data'')"
proof -
  have "transform_weather_data_dt iso_date test_weather
     = Inl (ValueError ''Temperature column not found in weather data'')"
    unfolding transform_weather_data_dt_def
    by (rule transform_schema_errors(2) [where ts =
          "[Some (2023, 1, 1), Some (2023, 1, 2), Some (2023, 2, 1), Some (2023, 2, 2)]"])
       (simp_all add: test_weather_columns test_weather_parsed)
  then show ?thesis
    using test_weather_monthly test_weather_columns(6)
    by (simp add: transform_weather_data_def)
qed

subsection \<open>Year-over-year delta\<close>

lemma length_group_diff [simp]: "length (group_diff prev kvs) = length kvs"
  by (induction kvs arbitrary: prev) auto

lemma length_deltas_from [simp]: "length (deltas_from p vs) = length vs"
  by (induction vs arbitrary: p) auto











subsection \<open>Dimension join\<close>

lemma col_index_append_new: "c \<notin> set cs \<Longrightarrow> col_index c (cs @ [c]) = Some (length cs)"
  by (induction cs) auto

lemma col_index_less: "col_index c cs = Some i \<Longrightarrow> i < length cs"
  by (induction cs arbitrary: i) (auto split: if_splits)

lemma set_column_columns:
  "columns (set_column df c v) = (if c \<in> set (columns df) then columns df else columns df @ [c])"
  using col_index_Some [of c "columns df"] col_index_None [of c "columns df"]
  by (auto simp: set_column_def)

lemma set_column_rows: "length (rows (set_column df c v)) = length (rows df)"
  by (simp add: set_column_def split: option.splits)

lemma set_column_cells:
  assumes "wf_frame df"
  shows "\<exists>i. col_index c (columns (set_column df c v)) = Some i \<and>
             (\<forall>r \<in> set (rows (set_column df c v)). cell_at r i = v)"
proof (cases "col_index c (columns df)")
  case None
  then have c: "c \<notin> set (columns df)" using col_index_Some by fastforce
  have "\<forall>r \<in> set (rows df). length r = length (columns df)"
    using assms by (simp add: wf_frame_def list_all_iff)
  then show ?thesis
    using None col_index_append_new [OF c]
    by (auto simp: set_column_def cell_at_def nth_append)
next
  case (Some i)
  have "\<forall>r \<in> set (rows df). i < length r"
    using assms col_index_less [OF Some] by (simp add: wf_frame_def list_all_iff)
  then show ?thesis
    using Some by (auto simp: set_column_def cell_at_def)
qed

lemma set_column_column:
  assumes "wf_frame df"
  shows "column (set_column df c v) c = replicate (length (rows df)) v"
proof -
  obtain i where i: "col_index c (columns (set_column df c v)) = Some i"
    and v: "\<forall>r \<in> set (rows (set_column df c v)). cell_at r i = v"
    using set_column_cells [OF assms] by blast
  have "column (set_column df c v) c = map (\<lambda>r. v) (rows (set_column df c v))"
    using i v by (simp add: column_def)
  then show ?thesis
    by (simp add: map_replicate_const set_column_rows)
qed

lemma join_frames:
  "snd (join_weather_and_geonames weather_df geonames_df)
     = (set_column weather_df ''join_key'' (Num 1), set_column geonames_df ''join_key'' (Num 1))"
  by (simp add: join_weather_and_geonames_def Let_def)

text \<open>
  Claim C10. Whatever the join returns or raises, it leaves both frames of the caller
  with a column \<open>join_key\<close> that holds 1 in every row; a frame that had no such column,
  as the monthly records and the dimension table of the pipeline, has one column more
  than before and is no longer the frame that was passed in.
\<close>

theorem join_mutates_both_inputs:
  assumes "wf_frame weather_df" and "wf_frame geonames_df"
    and "join_weather_and_geonames weather_df geonames_df = (result, weather_df', geonames_df')"
  shows "''join_key'' \<in> set (columns weather_df') \<and>
         column weather_df' ''join_key'' = replicate (length (rows weather_df)) (Num 1) \<and>
         ''join_key'' \<in> set (columns geonames_df') \<and>
         column geonames_df' ''join_key'' = replicate (length (rows geonames_df)) (Num 1) \<and>
         (''join_key'' \<notin> set (columns weather_df) \<longrightarrow>
            columns weather_df' = columns weather_df @ [''join_key''] \<and>
            weather_df' \<noteq> weather_df) \<and>
         (''join_key'' \<notin> set (columns geonames_df) \<longrightarrow>
            columns geonames_df' = columns geonames_df @ [''join_key''] \<and>
            geonames_df' \<noteq> geonames_df)"
proof -
  have w: "weather_df' = set_column weather_df ''join_key'' (Num 1)"
    and g: "geonames_df' = set_column geonames_df ''join_key'' (Num 1)"
    using join_frames [of weather_df geonames_df] assms(3) by simp_all
  have cw: "columns weather_df' = (if ''join_key'' \<in> set (columns weather_df)
              then columns weather_df else columns weather_df @ [''join_key''])"
    and cg: "columns geonames_df' = (if ''join_key'' \<in> set (columns geonames_df)
              then columns geonames_df else columns geonames_df @ [''join_key''])"
    by (simp_all only: w g set_column_columns)
  have kw: "column weather_df' ''join_key'' = replicate (length (rows weather_df)) (Num 1)"
    unfolding w using assms(1) by (rule set_column_column)
  have kg: "column geonames_df' ''join_key'' = replicate (length (rows geonames_df)) (Num 1)"
    unfolding g using assms(2) by (rule set_column_column)
  have nw: "weather_df' \<noteq> weather_df" if "''join_key'' \<notin> set (columns weather_df)"
  proof
    assume "weather_df' = weather_df"
    then have "columns weather_df' = columns weather_df" by simp
    then show False using that cw by simp
  qed
  have ng: "geonames_df' \<noteq> geonames_df" if "''join_key'' \<notin> set (columns geonames_df)"
  proof
    assume "geonames_df' = geonames_df"
    then have "columns geonames_df' = columns geonames_df" by simp
    then show False using that cg by simp
  qed
  show ?thesis
    using cw cg kw kg nw ng by simp
qed

lemma example_frames_wf:
  "wf_frame two_stations" "wf_frame one_station" "wf_frame two_dimensions"
  "wf_frame duplicate_dimension" "wf_frame no_dimension"
  by (simp_all add: wf_frame_def two_stations_def one_station_def two_dimensions_def
        duplicate_dimension_def no_dimension_def monthly_columns_def geonames_columns_def
        row_A_def row_F_def)

theorem join_mutates_both_inputs_witness:
  "wf_frame two_stations \<and> wf_frame two_dimensions \<and>
   ''join_key'' \<notin> set (columns two_stations) \<and>
   ''join_key'' \<notin> set (columns two_dimensions) \<and>
   columns (fst (snd (join_weather_and_geonames two_stations two_dimensions)))
     = monthly_columns @ [''join_key''] \<and>
   columns (snd (snd (join_weather_and_geonames two_stations two_dimensions)))
     = geonames_columns @ [''join_key''] \<and>
   column (fst (snd (join_weather_and_geonames two_stations two_dimensions))) ''join_key''
     = [Num 1, Num 1] \<and>
   column (snd (snd (join_weather_and_geonames two_stations two_dimensions))) ''join_key''
     = [Num 1, Num 1] \<and>
   fst (snd (join_weather_and_geonames two_stations two_dimensions)) \<noteq> two_stations \<and>
   snd (snd (join_weather_and_geonames two_stations two_dimensions)) \<noteq> two_dimensions"
proof -
  have c: "''join_key'' \<notin> set (columns two_stations)"
    "''join_key'' \<notin> set (columns two_dimensions)"
    "columns two_stations = monthly_columns" "columns two_dimensions = geonames_columns"
    "length (rows two_stations) = 2" "length (rows two_dimensions) = 2"
    by (simp_all add: two_stations_def two_dimensions_def monthly_columns_def
          geonames_columns_def)
  obtain result w' g'
    where j: "join_weather_and_geonames two_stations two_dimensions = (result, w', g')"
    by (cases "join_weather_and_geonames two_stations two_dimensions") auto
  show ?thesis
    using join_mutates_both_inputs [OF example_frames_wf(1) example_frames_wf(3) j]
      example_frames_wf c
    by (simp add: j numeral_2_eq_2)
qed

lemma length_concat_product:
  "length (concat (map (\<lambda>l. map (f l) R) L)) = length L * length R"
  by (induction L) auto

lemma merge_rows_all_match:
  assumes "col_index key (columns left) = Some i" and "col_index key (columns right) = Some j"
    and "\<forall>l \<in> set (rows left). cell_at l i = v" and "\<forall>r \<in> set (rows right). cell_at r j = v"
    and "merge left right key = Inr merged"
  shows "length (rows merged) = length (rows left) * length (rows right)"
proof -
  have "filter (\<lambda>r. cell_at r j = cell_at l i) (rows right) = rows right"
    if "l \<in> set (rows left)" for l
    using that assms(3,4) by (auto simp: filter_id_conv)
  then have "map (\<lambda>l. map (\<lambda>r. l @ drop_nth j r)
                 (filter (\<lambda>r. cell_at r j = cell_at l i) (rows right))) (rows left)
           = map (\<lambda>l. map (\<lambda>r. l @ drop_nth j r) (rows right)) (rows left)"
    by auto
  moreover have "rows merged = concat (map (\<lambda>l. map (\<lambda>r. l @ drop_nth j r)
                 (filter (\<lambda>r. cell_at r j = cell_at l i) (rows right))) (rows left))"
    using assms(1,2,5) by (auto simp: merge_def Let_def)
  ultimately show ?thesis
    by (simp only: length_concat_product)
qed

text \<open>
  On well-formed frames the join, when it returns, returns every monthly record paired
  with every row of the dimension table: as many rows as the product of the two sizes.
\<close>

lemma join_is_cross_product:
  assumes "wf_frame weather_df" and "wf_frame geonames_df"
    and "fst (join_weather_and_geonames weather_df geonames_df) = Inr final_df"
  shows "length (rows final_df) = length (rows weather_df) * length (rows geonames_df)"
proof -
  define w where "w = set_column weather_df ''join_key'' (Num 1)"
  define g where "g = set_column geonames_df ''join_key'' (Num 1)"
  obtain i where i: "col_index ''join_key'' (columns w) = Some i"
    and wi: "\<forall>l \<in> set (rows w). cell_at l i = Num 1"
    unfolding w_def using set_column_cells [OF assms(1)] by blast
  obtain j where j: "col_index ''join_key'' (columns g) = Some j"
    and gj: "\<forall>r \<in> set (rows g). cell_at r j = Num 1"
    unfolding g_def using set_column_cells [OF assms(2)] by blast
  obtain merged combined_df where m: "merge w g ''join_key'' = Inr merged"
    and d: "drop_column merged ''join_key'' = Inr combined_df"
    and f: "final_df = select_columns combined_df final_columns"
    using assms(3) unfolding join_weather_and_geonames_def Let_def w_def g_def
    by (auto split: sum.splits list.splits)
  have "length (rows merged) = length (rows w) * length (rows g)"
    using i j wi gj m by (rule merge_rows_all_match)
  moreover have "length (rows combined_df) = length (rows merged)"
    using d by (auto simp: drop_column_def split: option.splits)
  moreover have "length (rows final_df) = length (rows combined_df)"
    by (simp add: f select_columns_def)
  ultimately show ?thesis
    by (simp add: w_def g_def set_column_rows)
qed

text \<open>
  Claim C1 fails on the code. The join pairs every monthly record with every dimension
  row and has no check of how many rows match a station. With two stations that have
  exactly one dimension row each under \<open>station_mapping\<close>, the result has two rows for
  each (station, month); with a duplicated dimension row it has the record twice; with
  no dimension row it is empty. In none of these runs is an exception raised.
\<close>

theorem join_multiplies_rows:
  "matching_rows two_dimensions ''26953'' = 1 \<and>
   matching_rows two_dimensions ''31688'' = 1 \<and>
   fst (join_weather_and_geonames two_stations two_dimensions) =
     Inr \<lparr>columns = final_columns,
          rows = [[Str ''Alpha'', Str ''ABCDE'', Num 45, Num (-75), Str ''2023-01'',
                   Str ''f1'', Str ''m1'', Num 5, Num 4, Num 6, Null],
                  [Str ''Foxtrot'', Str ''FGHIJ'', Num 50, Num (-100), Str ''2023-01'',
                   Str ''f2'', Str ''m2'', Num 5, Num 4, Num 6, Null],
                  [Str ''Alpha'', Str ''ABCDE'', Num 45, Num (-75), Str ''2023-01'',
                   Str ''f1'', Str ''m1'', Num 2, Num 1, Num 3, Null],
                  [Str ''Foxtrot'', Str ''FGHIJ'', Num 50, Num (-100), Str ''2023-01'',
                   Str ''f2'', Str ''m2'', Num 2, Num 1, Num 3, Null]]\<rparr> \<and>
   matching_rows duplicate_dimension ''26953'' = 2 \<and>
   fst (join_weather_and_geonames one_station duplicate_dimension) =
     Inr \<lparr>columns = final_columns,
          rows = [[Str ''Alpha'', Str ''ABCDE'', Num 45, Num (-75), Str ''2023-01'',
                   Str ''f1'', Str ''m1'', Num 5, Num 4, Num 6, Null],
                  [Str ''Alpha'', Str ''ABCDE'', Num 45, Num (-75), Str ''2023-01'',
                   Str ''f1'', Str ''m1'', Num 5, Num 4, Num 6, Null]]\<rparr> \<and>
   matching_rows no_dimension ''26953'' = 0 \<and>
   fst (join_weather_and_geonames one_station no_dimension) =
     Inr \<lparr>columns = final_columns, rows = []\<rparr>"
proof -
  have m: "matching_rows two_dimensions ''26953'' = 1"
    "matching_rows two_dimensions ''31688'' = 1"
    "matching_rows duplicate_dimension ''26953'' = 2"
    "matching_rows no_dimension ''26953'' = 0"
    by (simp_all add: matching_rows_def station_mapping_def column_def cell_at_def
          two_dimensions_def duplicate_dimension_def no_dimension_def geonames_columns_def
          row_A_def row_F_def)
  have j1: "fst (join_weather_and_geonames two_stations two_dimensions) =
     Inr \<lparr>columns = final_columns,
          rows = [[Str ''Alpha'', Str ''ABCDE'', Num 45, Num (-75), Str ''2023-01'',
                   Str ''f1'', Str ''m1'', Num 5, Num 4, Num 6, Null],
                  [Str ''Foxtrot'', Str ''FGHIJ'', Num 50, Num (-100), Str ''2023-01'',
                   Str ''f2'', Str ''m2'', Num 5, Num 4, Num 6, Null],
                  [Str ''Alpha'', Str ''ABCDE'', Num 45, Num (-75), Str ''2023-01'',
                   Str ''f1'', Str ''m1'', Num 2, Num 1, Num 3, Null],
                  [Str ''Foxtrot'', Str ''FGHIJ'', Num 50, Num (-100), Str ''2023-01'',
                   Str ''f2'', Str ''m2'', Num 2, Num 1, Num 3, Null]]\<rparr>"
    by (simp add: join_weather_and_geonames_def set_column_def merge_def drop_column_def
          select_columns_def drop_nth_def cell_at_def final_columns_def two_stations_def
          two_dimensions_def monthly_columns_def geonames_columns_def row_A_def row_F_def
          Let_def)
  have j2: "fst (join_weather_and_geonames one_station duplicate_dimension) =
     Inr \<lparr>columns = final_columns,
          rows = [[Str ''Alpha'', Str ''ABCDE'', Num 45, Num (-75), Str ''2023-01'',
                   Str ''f1'', Str ''m1'', Num 5, Num 4, Num 6, Null],
                  [Str ''Alpha'', Str ''ABCDE'', Num 45, Num (-75), Str ''2023-01'',
                   Str ''f1'', Str ''m1'', Num 5, Num 4, Num 6, Null]]\<rparr>"
    by (simp add: join_weather_and_geonames_def set_column_def merge_def drop_column_def
          select_columns_def drop_nth_def cell_at_def final_columns_def one_station_def
          duplicate_dimension_def monthly_columns_def geonames_columns_def row_A_def
          Let_def)
  have j3: "fst (join_weather_and_geonames one_station no_dimension) =
     Inr \<lparr>columns = final_columns, rows = []\<rparr>"
    by (simp add: join_weather_and_geonames_def set_column_def merge_def drop_column_def
          select_columns_def drop_nth_def cell_at_def final_columns_def one_station_def
          no_dimension_def monthly_columns_def geonames_columns_def Let_def)
  show ?thesis using m j1 j2 j3 by blast
qed

subsection \<open>Loading the raw batches\<close>

lemma load_file_logs_no_error: "filter is_error_record (fst (load_file read_csv f)) = []"
  by (auto simp: load_file_def Let_def split: sum.splits)

lemma load_files_state:
  "load_files read_csv files (logs, acc) = (logs', all_data) \<Longrightarrow>
     all_data = acc @ usable_batches read_csv files \<and>
     filter is_error_record logs'
       = filter is_error_record logs @ failure_records read_csv files"
proof (induction files arbitrary: logs acc)
  case Nil
  then show ?case by (simp add: usable_batches_def failure_records_def)
next
  case (Cons f files)
  obtain logged r where lf: "load_file read_csv f = (logged, r)"
    by (cases "load_file read_csv f")
  have ne: "filter is_error_record logged = []"
    using load_file_logs_no_error [of read_csv f] lf by simp
  show ?case
  proof (cases r)
    case (Inl e)
    with Cons.prems lf
    have "load_files read_csv files
            (logs @ logged @ [LogError (''Error processing file '' @ f @ '': ''
                                         @ error_message e)], acc) = (logs', all_data)"
      by simp
    from Cons.IH [OF this] show ?thesis
      using lf Inl ne by (simp add: usable_batches_def failure_records_def)
  next
    case (Inr df)
    with Cons.prems lf
    have "load_files read_csv files (logs @ logged, acc @ [df]) = (logs', all_data)"
      by simp
    from Cons.IH [OF this] show ?thesis
      using lf Inr ne by (simp add: usable_batches_def failure_records_def)
  qed
qed

lemma usable_batches_empty:
  "usable_batches read_csv files = [] \<longleftrightarrow>
     (\<forall>f \<in> set files. isl (snd (load_file read_csv f)))"
  by (induction files) (auto simp: usable_batches_def split: sum.splits)

lemma failure_record_logged:
  "f \<in> set files \<Longrightarrow> snd (load_file read_csv f) = Inl e \<Longrightarrow>
     LogError (''Error processing file '' @ f @ '': '' @ error_message e)
       \<in> set (failure_records read_csv files)"
  by (induction files) (auto simp: failure_records_def)

text \<open>
  Claim C6. The loader gives up exactly when no file yields a usable batch, that is when
  the body of the loop raises for every file (in particular when there is no file), and
  then with one of the two exceptions that stand for \<open>EmptyDatasetError\<close>. Otherwise it
  returns the concatenation of all usable batches in file order: a batch that fails is
  skipped and does not end the run. Every skipped file has its error record in the log,
  and the log holds no other error record while the run succeeds.
\<close>

theorem load_skips_failed_batches:
  assumes "load_weather_data read_csv raw_data_dir csv_files = (logs, result)"
  shows "(isl result \<longleftrightarrow> (\<forall>f \<in> set csv_files. isl (snd (load_file read_csv f)))) \<and>
         (\<forall>e. result = Inl e \<longrightarrow> EmptyDatasetError e) \<and>
         (\<not> isl result \<longrightarrow>
            result = Inr (concat_frames (usable_batches read_csv csv_files)) \<and>
            filter is_error_record logs = failure_records read_csv csv_files) \<and>
         (\<forall>f e. f \<in> set csv_files \<longrightarrow> snd (load_file read_csv f) = Inl e \<longrightarrow>
            LogError (''Error processing file '' @ f @ '': '' @ error_message e) \<in> set logs)"
proof (cases "csv_files = []")
  case True
  then have "logs = [LogInfo (''Loading weather data from raw files in '' @ raw_data_dir),
                     LogError (''No raw data files found in '' @ raw_data_dir)]"
    and "result = Inl (FileNotFoundError (''No raw data files found in '' @ raw_data_dir))"
    using assms by (simp_all add: load_weather_data_def Let_def)
  then show ?thesis
    using True by simp
next
  case False
  obtain logs' all_data
    where lf: "load_files read_csv csv_files
                 ([LogInfo (''Loading weather data from raw files in '' @ raw_data_dir)], [])
               = (logs', all_data)"
    by (cases "load_files read_csv csv_files
                 ([LogInfo (''Loading weather data from raw files in '' @ raw_data_dir)], [])")
  have ad: "all_data = usable_batches read_csv csv_files"
    and er: "filter is_error_record logs' = failure_records read_csv csv_files"
    using load_files_state [OF lf] by simp_all
  have logged: "LogError (''Error processing file '' @ f @ '': '' @ error_message e) \<in> set logs'"
    if "f \<in> set csv_files" and "snd (load_file read_csv f) = Inl e" for f e
  proof -
    have "LogError (''Error processing file '' @ f @ '': '' @ error_message e)
            \<in> set (filter is_error_record logs')"
      unfolding er using that by (rule failure_record_logged)
    then show ?thesis by simp
  qed
  have all_fail: "usable_batches read_csv csv_files = [] \<longleftrightarrow>
      (\<forall>f \<in> set csv_files. isl (snd (load_file read_csv f)))"
    by (rule usable_batches_empty)
  show ?thesis
  proof (cases "all_data = []")
    case True
    have l: "logs = logs' @ [LogError ''No valid data files were processed'']"
      and r: "result = Inl (ValueError ''No valid data files were processed'')"
      using assms False lf True by (simp_all add: load_weather_data_def Let_def)
    have 1: "isl result \<longleftrightarrow> (\<forall>f \<in> set csv_files. isl (snd (load_file read_csv f)))"
      using all_fail True ad r by simp
    have 2: "\<forall>e. result = Inl e \<longrightarrow> EmptyDatasetError e"
      by (simp add: r)
    have 3: "\<not> isl result \<longrightarrow>
            result = Inr (concat_frames (usable_batches read_csv csv_files)) \<and>
            filter is_error_record logs = failure_records read_csv csv_files"
      by (simp add: r)
    have 4: "\<forall>f e. f \<in> set csv_files \<longrightarrow> snd (load_file read_csv f) = Inl e \<longrightarrow>
            LogError (''Error processing file '' @ f @ '': '' @ error_message e) \<in> set logs"
      using logged by (simp add: l)
    show ?thesis using 1 2 3 4 by blast
  next
    case ne: False
    have l: "logs = logs'" and r: "result = Inr (concat_frames all_data)"
      using assms False lf ne by (simp_all add: load_weather_data_def Let_def)
    have "\<not> (\<forall>f \<in> set csv_files. isl (snd (load_file read_csv f)))"
      using all_fail ne ad by simp
    then have 1: "isl result \<longleftrightarrow> (\<forall>f \<in> set csv_files. isl (snd (load_file read_csv f)))"
      by (simp add: r)
    have 2: "\<forall>e. result = Inl e \<longrightarrow> EmptyDatasetError e"
      by (simp add: r)
    have 3: "\<not> isl result \<longrightarrow>
            result = Inr (concat_frames (usable_batches read_csv csv_files)) \<and>
            filter is_error_record logs = failure_records read_csv csv_files"
      by (simp add: r l ad er)
    have 4: "\<forall>f e. f \<in> set csv_files \<longrightarrow> snd (load_file read_csv f) = Inl e \<longrightarrow>
            LogError (''Error processing file '' @ f @ '': '' @ error_message e) \<in> set logs"
      using logged by (simp add: l)
    show ?thesis using 1 2 3 4 by blast
  qed
qed

lemma example_parts:
  "split_on CHR ''_'' (remove_all ''.csv'' (basename ''raw_data/station_26953_2023.csv''))
     = [''station'', ''26953'', ''2023'']"
  "split_on CHR ''_'' (remove_all ''.csv'' (basename ''raw_data/station_26953_2024.csv''))
     = [''station'', ''26953'', ''2024'']"
  "split_on CHR ''_'' (remove_all ''.csv'' (basename ''raw_data/station_31688.csv''))
     = [''station'', ''31688'']"
  by (simp_all add: basename_def remove_all.simps)

lemma example_load_file:
  "load_file example_read_csv ''raw_data/station_26953_2023.csv''
     = ([LogInfo ''Processing station_26953_2023.csv''],
        Inr \<lparr>columns = [''Date/Time'', Temp_C, ''station_id'', ''data_year''],
             rows = [[Str ''2023-01-01'', Num 5.2, Str ''26953'', Str ''2023'']]\<rparr>)"
  "load_file example_read_csv ''raw_data/station_26953_2024.csv''
     = ([LogInfo ''Processing station_26953_2024.csv''],
        Inl (ValueError ''No columns to parse from file''))"
  "load_file example_read_csv ''raw_data/station_31688.csv''
     = ([], Inl (IndexError ''list index out of range''))"
  unfolding load_file_def Let_def example_parts
  by (simp_all add: item_def basename_def example_read_csv_def day_frame_def set_column_def
        Temp_C_def)

theorem load_skips_failed_batches_witness:
  "snd (load_weather_data example_read_csv ''raw_data'' example_files)
     = Inr \<lparr>columns = [''Date/Time'', Temp_C, ''station_id'', ''data_year''],
            rows = [[Str ''2023-01-01'', Num 5.2, Str ''26953'', Str ''2023'']]\<rparr> \<and>
   \<not> isl (snd (load_file example_read_csv ''raw_data/station_26953_2023.csv'')) \<and>
   isl (snd (load_file example_read_csv ''raw_data/station_26953_2024.csv'')) \<and>
   isl (snd (load_file example_read_csv ''raw_data/station_31688.csv'')) \<and>
   LogError (''Error processing file raw_data/station_26953_2024.csv: ''
             @ ''No columns to parse from file'')
     \<in> set (fst (load_weather_data example_read_csv ''raw_data'' example_files)) \<and>
   LogError (''Error processing file raw_data/station_31688.csv: ''
             @ ''list index out of range'')
     \<in> set (fst (load_weather_data example_read_csv ''raw_data'' example_files)) \<and>
   snd (load_weather_data example_read_csv ''raw_data'' [''raw_data/station_26953_2024.csv''])
     = Inl (ValueError ''No valid data files were processed'') \<and>
   EmptyDatasetError (ValueError ''No valid data files were processed'')"
proof -
  obtain logs result
    where a: "load_weather_data example_read_csv ''raw_data'' example_files = (logs, result)"
    by (cases "load_weather_data example_read_csv ''raw_data'' example_files")
  obtain logs2 result2
    where b: "load_weather_data example_read_csv ''raw_data''
                [''raw_data/station_26953_2024.csv''] = (logs2, result2)"
    by (cases "load_weather_data example_read_csv ''raw_data''
                [''raw_data/station_26953_2024.csv'']")
  have u: "usable_batches example_read_csv example_files
             = [\<lparr>columns = [''Date/Time'', Temp_C, ''station_id'', ''data_year''],
                 rows = [[Str ''2023-01-01'', Num 5.2, Str ''26953'', Str ''2023'']]\<rparr>]"
    by (simp add: usable_batches_def example_files_def example_load_file)
  have c: "concat_frames
             [\<lparr>columns = [''Date/Time'', Temp_C, ''station_id'', ''data_year''],
               rows = [[Str ''2023-01-01'', Num 5.2, Str ''26953'', Str ''2023'']]\<rparr>]
           = \<lparr>columns = [''Date/Time'', Temp_C, ''station_id'', ''data_year''],
               rows = [[Str ''2023-01-01'', Num 5.2, Str ''26953'', Str ''2023'']]\<rparr>"
    by (simp add: concat_frames_def select_columns_def cell_at_def Temp_C_def)
  have m: "''raw_data/station_26953_2023.csv'' \<in> set example_files"
    "''raw_data/station_26953_2024.csv'' \<in> set example_files"
    "''raw_data/station_31688.csv'' \<in> set example_files"
    by (simp_all add: example_files_def)
  have f1: "snd (load_file example_read_csv ''raw_data/station_26953_2023.csv'')
              = Inr \<lparr>columns = [''Date/Time'', Temp_C, ''station_id'', ''data_year''],
                     rows = [[Str ''2023-01-01'', Num 5.2, Str ''26953'', Str ''2023'']]\<rparr>"
    and f2: "snd (load_file example_read_csv ''raw_data/station_26953_2024.csv'')
              = Inl (ValueError ''No columns to parse from file'')"
    and f3: "snd (load_file example_read_csv ''raw_data/station_31688.csv'')
              = Inl (IndexError ''list index out of range'')"
    by (simp_all only: example_load_file snd_conv)
  note t = load_skips_failed_batches [OF a]
  have "\<not> isl (snd (load_file example_read_csv ''raw_data/station_26953_2023.csv''))"
    by (simp only: f1 sum.disc simp_thms)
  then have "\<not> (\<forall>f \<in> set example_files. isl (snd (load_file example_read_csv f)))"
    using m(1) by blast
  then have "\<not> isl result"
    using t [THEN conjunct1] by simp
  then have "result = Inr (concat_frames (usable_batches example_read_csv example_files))"
    using t [THEN conjunct2, THEN conjunct2, THEN conjunct1] by simp
  then have r: "snd (load_weather_data example_read_csv ''raw_data'' example_files)
     = Inr \<lparr>columns = [''Date/Time'', Temp_C, ''station_id'', ''data_year''],
            rows = [[Str ''2023-01-01'', Num 5.2, Str ''26953'', Str ''2023'']]\<rparr>"
    by (simp only: a snd_conv u c)
  have l2: "LogError (''Error processing file '' @ ''raw_data/station_26953_2024.csv'' @ '': ''
           @ error_message (ValueError ''No columns to parse from file'')) \<in> set logs"
    using t [THEN conjunct2, THEN conjunct2, THEN conjunct2, rule_format, OF m(2) f2] .
  have l3: "LogError (''Error processing file '' @ ''raw_data/station_31688.csv'' @ '': ''
           @ error_message (IndexError ''list index out of range'')) \<in> set logs"
    using t [THEN conjunct2, THEN conjunct2, THEN conjunct2, rule_format, OF m(3) f3] .
  have r2: "result2 = Inl (ValueError ''No valid data files were processed'')"
    using b by (simp add: load_weather_data_def example_load_file)
  have e: "EmptyDatasetError (ValueError ''No valid data files were processed'')"
    using load_skips_failed_batches [OF b, THEN conjunct2, THEN conjunct1, rule_format, OF r2] .
  have i: "\<not> isl (snd (load_file example_read_csv ''raw_data/station_26953_2023.csv''))"
    "isl (snd (load_file example_read_csv ''raw_data/station_26953_2024.csv''))"
    "isl (snd (load_file example_read_csv ''raw_data/station_31688.csv''))"
    by (simp_all only: f1 f2 f3 sum.disc simp_thms)
  have l2': "LogError (''Error processing file raw_data/station_26953_2024.csv: ''
             @ ''No columns to parse from file'')
     \<in> set (fst (load_weather_data example_read_csv ''raw_data'' example_files))"
    using l2 by (simp add: a)
  have l3': "LogError (''Error processing file raw_data/station_31688.csv: ''
             @ ''list index out of range'')
     \<in> set (fst (load_weather_data example_read_csv ''raw_data'' example_files))"
    using l3 by (simp add: a)
  have r2': "snd (load_weather_data example_read_csv ''raw_data''
               [''raw_data/station_26953_2024.csv''])
     = Inl (ValueError ''No valid data files were processed'')"
    by (simp only: b snd_conv r2)
  show ?thesis
    using r i l2' l3' r2' e by (intro conjI)
qed

subsection \<open>Analytical queries\<close>

lemma sqlite_le_total: "sqlite_le a b \<or> sqlite_le b a"
  by (cases a; cases b) auto

lemma sqlite_le_trans: "sqlite_le a b \<Longrightarrow> sqlite_le b c \<Longrightarrow> sqlite_le a c"
  by (cases a; cases b; cases c) auto

lemma set_insert_by [simp]: "set (insert_by le x ys) = insert x (set ys)"
  by (induction ys) auto

lemma length_insert_by [simp]: "length (insert_by le x ys) = Suc (length ys)"
  by (induction ys) auto

lemma sorted_insert_by:
  assumes total: "\<And>a b. le a b \<or> le b a"
    and trans: "\<And>a b c. le a b \<Longrightarrow> le b c \<Longrightarrow> le a c"
  shows "sorted_wrt le ys \<Longrightarrow> sorted_wrt le (insert_by le x ys)"
proof (induction ys)
  case Nil
  then show ?case by simp
next
  case (Cons y ys)
  show ?case
  proof (cases "le x y")
    case True
    then have "\<forall>z \<in> set ys. le x z" using Cons.prems trans by auto
    then show ?thesis using True Cons.prems by simp
  next
    case False
    then have "le y x" using total by blast
    then show ?thesis using False Cons by auto
  qed
qed

lemma set_order_by [simp]: "set (order_by le xs) = set xs"
  by (induction xs) (auto simp: order_by_def)

lemma length_order_by [simp]: "length (order_by le xs) = length xs"
  by (induction xs) (auto simp: order_by_def)

lemma sorted_order_by:
  assumes "\<And>a b. le a b \<or> le b a" and "\<And>a b c. le a b \<Longrightarrow> le b c \<Longrightarrow> le a c"
  shows "sorted_wrt le (order_by le xs)"
proof (induction xs)
  case Nil
  then show ?case by (simp add: order_by_def)
next
  case (Cons x xs)
  have "order_by le (x # xs) = insert_by le x (order_by le xs)"
    by (simp add: order_by_def)
  then show ?case
    using sorted_insert_by [of le, OF assms Cons.IH] by simp
qed

lemma sorted_take: "sorted_wrt le xs \<Longrightarrow> sorted_wrt le (take n xs)"
  by (metis append_take_drop_id sorted_wrt_append)

lemma select_ordered_result:
  assumes "select_ordered weather_data key name descending = Inr result"
  shows "columns result = [''station_name'', ''date_month'', name]"
    and "length (rows result) = min 10 (length (rows weather_data))"
    and "sorted_wrt (\<lambda>a b. if descending then sqlite_le (b ! 2) (a ! 2)
                             else sqlite_le (a ! 2) (b ! 2)) (rows result)"
proof -
  define le where "le = (\<lambda>a b :: cell list. if descending then sqlite_le (b ! 2) (a ! 2)
                                             else sqlite_le (a ! 2) (b ! 2))"
  obtain i j k
    where r: "result = \<lparr>columns = [''station_name'', ''date_month'', name],
                         rows = take 10 (order_by le
                           (map (\<lambda>r. [cell_at r i, cell_at r j, cell_at r k])
                              (rows weather_data)))\<rparr>"
    using assms unfolding select_ordered_def le_def
    by (auto split: option.splits)
  have total: "le a b \<or> le b a" for a b
    using sqlite_le_total by (simp add: le_def)
  have trans: "le a b \<Longrightarrow> le b c \<Longrightarrow> le a c" for a b c
    using sqlite_le_trans by (auto simp: le_def split: if_splits)
  show "columns result = [''station_name'', ''date_month'', name]"
    by (simp add: r)
  show "length (rows result) = min 10 (length (rows weather_data))"
    by (simp add: r)
  have "sorted_wrt le (rows result)"
    unfolding r using sorted_order_by [of le, OF total trans] by (simp add: sorted_take)
  then show "sorted_wrt (\<lambda>a b. if descending then sqlite_le (b ! 2) (a ! 2)
                             else sqlite_le (a ! 2) (b ! 2)) (rows result)"
    by (simp only: le_def)
qed

lemma select_ordered_returns:
  assumes "''station_name'' \<in> set (columns weather_data)"
    and "''date_month'' \<in> set (columns weather_data)"
    and "key \<in> set (columns weather_data)"
  shows "\<exists>result. select_ordered weather_data key name descending = Inr result"
  using col_index_Some [OF assms(1)] col_index_Some [OF assms(2)] col_index_Some [OF assms(3)]
  by (auto simp: select_ordered_def)

text \<open>
  Claim C8. On every table that has the columns of the final data set, both queries
  return a result; each result has at most 10 rows (10, or all rows of a smaller
  table); the rows of \<open>extreme_high_temps\<close> are in descending order of their maximum
  temperature and those of \<open>extreme_low_temps\<close> in ascending order of their minimum
  temperature, in the order SQLite gives to values.
\<close>

theorem extreme_temps_bounded_and_ordered:
  assumes "set final_columns \<subseteq> set (columns weather_data)"
  shows "\<exists>high low.
           extreme_high_temps weather_data = Inr high \<and>
           extreme_low_temps weather_data = Inr low \<and>
           columns high = [''station_name'', ''date_month'', ''max_temperature''] \<and>
           columns low = [''station_name'', ''date_month'', ''min_temperature''] \<and>
           length (rows high) \<le> 10 \<and> length (rows low) \<le> 10 \<and>
           length (rows high) = min 10 (length (rows weather_data)) \<and>
           length (rows low) = min 10 (length (rows weather_data)) \<and>
           sorted_wrt (\<lambda>a b. sqlite_le (b ! 2) (a ! 2)) (rows high) \<and>
           sorted_wrt (\<lambda>a b. sqlite_le (a ! 2) (b ! 2)) (rows low)"
proof -
  have c: "''station_name'' \<in> set (columns weather_data)"
    "''date_month'' \<in> set (columns weather_data)"
    "''temperature_celsius_max'' \<in> set (columns weather_data)"
    "''temperature_celsius_min'' \<in> set (columns weather_data)"
    using assms by (auto simp: final_columns_def)
  obtain high where h: "extreme_high_temps weather_data = Inr high"
    unfolding extreme_high_temps_def using select_ordered_returns [OF c(1,2,3)] by blast
  obtain low where l: "extreme_low_temps weather_data = Inr low"
    unfolding extreme_low_temps_def using select_ordered_returns [OF c(1,2,4)] by blast
  note hr = select_ordered_result [OF h [unfolded extreme_high_temps_def]]
  note lr = select_ordered_result [OF l [unfolded extreme_low_temps_def]]
  have "sorted_wrt (\<lambda>a b. sqlite_le (b ! 2) (a ! 2)) (rows high)"
    using hr(3) by simp
  moreover have "sorted_wrt (\<lambda>a b. sqlite_le (a ! 2) (b ! 2)) (rows low)"
    using lr(3) by simp
  ultimately show ?thesis
    using h l hr(1,2) lr(1,2) by simp
qed

lemma year_table_queries:
  "extreme_high_temps year_table =
     Inr \<lparr>columns = [''station_name'', ''date_month'', ''max_temperature''],
          rows = [[Str ''Alpha'', Str ''2023-11'', Num 11], [Str ''Alpha'', Str ''2023-10'', Num 10],
                  [Str ''Alpha'', Str ''2023-09'', Num 9], [Str ''Alpha'', Str ''2023-08'', Num 8],
                  [Str ''Alpha'', Str ''2023-07'', Num 7], [Str ''Alpha'', Str ''2023-06'', Num 6],
                  [Str ''Alpha'', Str ''2023-05'', Num 5], [Str ''Alpha'', Str ''2023-04'', Num 4],
                  [Str ''Alpha'', Str ''2023-03'', Num 3], [Str ''Alpha'', Str ''2023-02'', Num 2]]\<rparr>"
  "extreme_low_temps year_table =
     Inr \<lparr>columns = [''station_name'', ''date_month'', ''min_temperature''],
          rows = [[Str ''Alpha'', Str ''2023-01'', Num (-9)], [Str ''Alpha'', Str ''2023-02'', Num (-8)],
                  [Str ''Alpha'', Str ''2023-03'', Num (-7)], [Str ''Alpha'', Str ''2023-04'', Num (-6)],
                  [Str ''Alpha'', Str ''2023-05'', Num (-5)], [Str ''Alpha'', Str ''2023-06'', Num (-4)],
                  [Str ''Alpha'', Str ''2023-07'', Num (-3)], [Str ''Alpha'', Str ''2023-08'', Num (-2)],
                  [Str ''Alpha'', Str ''2023-09'', Num (-1)], [Str ''Alpha'', Str ''2023-10'', Num 0]]\<rparr>"
  by (simp_all add: extreme_high_temps_def extreme_low_temps_def select_ordered_def
        year_table_def year_row_def final_columns_def cell_at_def order_by_def
        decimal_digit_def)

theorem extreme_temps_witness:
  "set final_columns \<subseteq> set (columns year_table) \<and>
   length (rows year_table) = 12 \<and>
   \<not> isl (extreme_high_temps year_table) \<and> \<not> isl (extreme_low_temps year_table) \<and>
   length (rows (projr (extreme_high_temps year_table))) = 10 \<and>
   length (rows (projr (extreme_low_temps year_table))) = 10 \<and>
   map (\<lambda>r. r ! 2) (rows (projr (extreme_high_temps year_table)))
     = [Num 11, Num 10, Num 9, Num 8, Num 7, Num 6, Num 5, Num 4, Num 3, Num 2] \<and>
   map (\<lambda>r. r ! 2) (rows (projr (extreme_low_temps year_table)))
     = [Num (-9), Num (-8), Num (-7), Num (-6), Num (-5), Num (-4), Num (-3), Num (-2),
        Num (-1), Num 0]"
proof -
  have c: "set final_columns \<subseteq> set (columns year_table)"
    and n: "length (rows year_table) = 12"
    by (simp_all add: year_table_def)
  have main: "set final_columns \<subseteq> set (columns year_table) \<and>
   length (rows year_table) = 12 \<and>
   \<not> isl (extreme_high_temps year_table) \<and> \<not> isl (extreme_low_temps year_table) \<and>
   length (rows (projr (extreme_high_temps year_table))) = 10 \<and>
   length (rows (projr (extreme_low_temps year_table))) = 10 \<and>
   map (\<lambda>r. r ! 2) (rows (projr (extreme_high_temps year_table)))
     = [Num 11, Num 10, Num 9, Num 8, Num 7, Num 6, Num 5, Num 4, Num 3, Num 2] \<and>
   map (\<lambda>r. r ! 2) (rows (projr (extreme_low_temps year_table)))
     = [Num (-9), Num (-8), Num (-7), Num (-6), Num (-5), Num (-4), Num (-3), Num (-2),
        Num (-1), Num 0]"
    using c n by (simp add: year_table_queries)
  from extreme_temps_bounded_and_ordered [OF c]
  have "\<exists>high low. extreme_high_temps year_table = Inr high \<and>
          extreme_low_temps year_table = Inr low \<and>
          length (rows high) \<le> 10 \<and> length (rows low) \<le> 10"
    by blast
  then show ?thesis
    apply -
    by (rule main)
qed

subsection \<open>Saving the analysis results\<close>

lemma convert_well_formed:
  assumes "list_all (\<lambda>(name, v). case v of Records rs \<Rightarrow> True | Plain j \<Rightarrow> True | _ \<Rightarrow> False)
             items"
  shows "convert_items items
           = Inr (map (\<lambda>(name, v). (name, Some (case v of Records rs \<Rightarrow> JArray rs
                                                     | Plain j \<Rightarrow> j | _ \<Rightarrow> JNull))) items)"
  using assms
proof (induction items)
  case Nil
  then show ?case by simp
next
  case (Cons item items)
  obtain name v where item: "item = (name, v)" by (cases item)
  show ?case
    using Cons unfolding item by (cases v) auto
qed

lemma dump_to_writes:
  assumes "output_dir = [] \<or> output_dir \<in> set (directories fs)"
    and "content = map (\<lambda>(k, v). (k, Some (f k v))) items"
  shows "\<exists>fs'. dump_to output_dir output_path content fs = Inr fs' \<and>
               map_of (files_written fs') output_path
                 = Some (Some (JObject (map (\<lambda>(k, v). (k, f k v)) items))) \<and>
               \<not> dump_raises content"
proof -
  have a: "list_all (\<lambda>(k, v). v \<noteq> None) content"
    unfolding assms(2) by (simp add: list_all_iff case_prod_unfold)
  have b: "map (\<lambda>(k, v). (k, the v)) content = map (\<lambda>(k, v). (k, f k v)) items"
    unfolding assms(2) by (simp add: case_prod_unfold)
  show ?thesis
    using assms(1) a b by (auto simp: dump_to_def dump_raises_def)
qed

lemma ensure_dir_makes:
  assumes "output_dir \<noteq> []"
  shows "\<exists>fs1. ensure_dir output_dir fs = Inr fs1 \<and> output_dir \<in> set (directories fs1)"
  using assms by (auto simp: ensure_dir_def)

text \<open>
  With a well-formed payload and a named output directory that exists, or that the
  function gets to create because the payload is not a string, the function returns the
  output path and the file holds the artifact promised for the shape of the payload.
\<close>

lemma save_writes_expected_artifact:
  assumes "well_formed results" and "output_dir \<noteq> []"
    and "output_dir \<in> set (directories fs) \<or> (\<forall>s. results \<noteq> PyStr s)"
  shows "\<exists>fs'. save_analysis_results results output_dir output_file fs
                 = (Inr (path_join output_dir output_file), fs') \<and>
               map_of (files_written fs') (path_join output_dir output_file)
                 = Some (Some (expected_artifact results))"
proof (cases results)
  case (PyStr s)
  then have d: "output_dir = [] \<or> output_dir \<in> set (directories fs)"
    using assms(3) by simp
  have c: "[(''raw_data'', Some (JString s))]
             = map (\<lambda>(k, v). (k, Some ((\<lambda>k v. v) k v))) [(''raw_data'', JString s)]"
    by simp
  from dump_to_writes [OF d c, of "path_join output_dir output_file"]
  show ?thesis
    unfolding PyStr save_analysis_results_def Let_def by auto
next
  case PyNone
  obtain fs1 where e: "ensure_dir output_dir fs = Inr fs1"
    and d: "output_dir = [] \<or> output_dir \<in> set (directories fs1)"
    using ensure_dir_makes [OF assms(2), of fs] by blast
  have c: "[(''error'', Some (JString ''No results data available''))]
             = map (\<lambda>(k, v). (k, Some ((\<lambda>k v. v) k v)))
                 [(''error'', JString ''No results data available'')]"
    by simp
  from dump_to_writes [OF d c, of "path_join output_dir output_file"]
  show ?thesis
    unfolding PyNone save_analysis_results_def Let_def using e by auto
next
  case (PyOther s)
  obtain fs1 where e: "ensure_dir output_dir fs = Inr fs1"
    and d: "output_dir = [] \<or> output_dir \<in> set (directories fs1)"
    using ensure_dir_makes [OF assms(2), of fs] by blast
  have c: "[(''raw_data'', Some (JString s))]
             = map (\<lambda>(k, v). (k, Some ((\<lambda>k v. v) k v))) [(''raw_data'', JString s)]"
    by simp
  from dump_to_writes [OF d c, of "path_join output_dir output_file"]
  show ?thesis
    unfolding PyOther save_analysis_results_def Let_def using e by auto
next
  case (PyDict items)
  obtain fs1 where e: "ensure_dir output_dir fs = Inr fs1"
    and d: "output_dir = [] \<or> output_dir \<in> set (directories fs1)"
    using ensure_dir_makes [OF assms(2), of fs] by blast
  define f where "f = (\<lambda>(k :: string) v. case v of Records rs \<Rightarrow> JArray rs | Plain j \<Rightarrow> j
                                           | _ \<Rightarrow> JNull)"
  have c: "convert_items items = Inr (map (\<lambda>(k, v). (k, Some (f k v))) items)"
    using assms(1) unfolding PyDict f_def by (simp add: convert_well_formed)
  from dump_to_writes [where f = f and items = items
      and output_path = "path_join output_dir output_file", OF d refl]
  obtain fs' where w: "dump_to output_dir (path_join output_dir output_file)
                         (map (\<lambda>(k, v). (k, Some (f k v))) items) fs1 = Inr fs'"
    and m: "map_of (files_written fs') (path_join output_dir output_file)
              = Some (Some (JObject (map (\<lambda>(k, v). (k, f k v)) items)))"
    and n: "\<not> dump_raises (map (\<lambda>(k, v). (k, Some (f k v))) items)"
    by blast
  have "save_analysis_results results output_dir output_file fs
          = (Inr (path_join output_dir output_file), fs')"
    unfolding PyDict save_analysis_results_def Let_def by (simp add: e c w n)
  moreover have "expected_artifact results = JObject (map (\<lambda>(k, v). (k, f k v)) items)"
    unfolding PyDict f_def by simp
  ultimately show ?thesis using m by simp
qed

text \<open>
  Claim C9 fails for a string payload when the output directory does not exist yet: the
  branch for strings writes and returns before the directory is ensured, so opening the
  file raises and no artifact is produced, while the same call with any other payload
  creates the directory and writes its artifact.
\<close>

theorem string_payload_skips_ensure_dir:
  "save_analysis_results (PyStr ''abc'') ''output'' ''analysis_results.json'' empty_disk
     = (Inl (FileNotFoundError ''output/analysis_results.json''), empty_disk) \<and>
   save_analysis_results PyNone ''output'' ''analysis_results.json'' empty_disk
     = (Inr ''output/analysis_results.json'',
        \<lparr>directories = [''output''],
         files_written =
           [(''output/analysis_results.json'',
             Some (JObject [(''error'', JString ''No results data available'')]))]\<rparr>)"
  by (simp add: save_analysis_results_def dump_to_def dump_raises_def ensure_dir_def
        path_join_def empty_disk_def Let_def)

end
